theory Spec2Isabelle
  imports Complex_Main
begin

section \<open>Numbers\<close>

text \<open>
  A JavaScript \<^verbatim>\<open>number\<close> is modelled as a mathematical \<^typ>\<open>real\<close>: the theory
  is about the formulas the program evaluates.  Where the program relies on a NaN being
  falsy (the \<^verbatim>\<open>|| 1\<close> of the standard deviation) the model writes the case out, and
  where the rounding of doubles decides a property (the normalisation of identical
  returns) the rounding is written out as well.
\<close>

section \<open>The environment: \<^verbatim>\<open>CartPoleEnv\<close>\<close>

record CartPoleState =
  x :: real
  xDot :: real
  theta :: real
  thetaDot :: real

record StepResult =
  nextState :: CartPoleState
  reward :: real
  "done" :: bool

text \<open>The only field of the environment that ever changes is \<^verbatim>\<open>state\<close>.\<close>

record CartPoleEnv =
  state :: CartPoleState

text \<open>\<^verbatim>\<open>CARTPOLE_THRESHOLDS\<close> of \<^verbatim>\<open>types.ts\<close>.\<close>

definition CARTPOLE_THRESHOLDS_x :: real where
  "CARTPOLE_THRESHOLDS_x = 2.4"

definition CARTPOLE_THRESHOLDS_theta :: real where
  "CARTPOLE_THRESHOLDS_theta = 12 * (pi / 180)"

text \<open>The field initialisers of the class; no method assigns them.\<close>

definition gravity :: real where "gravity = 9.8"
definition massCart :: real where "massCart = 1.0"
definition massPole :: real where "massPole = 0.1"
definition totalMass :: real where "totalMass = 1.1"
definition length_pole :: real where "length_pole = 0.5"
definition poleMassLength :: real where "poleMassLength = 0.05"
definition forceMag :: real where "forceMag = 10.0"
definition tau :: real where "tau = 0.02"

text \<open>
  \<^verbatim>\<open>step(action)\<close>: the result handed to the caller, and the environment with its
  \<^verbatim>\<open>state\<close> replaced.  The action is a \<^verbatim>\<open>number\<close>; nothing in the method inspects
  it except the comparison \<^verbatim>\<open>action === 1\<close>, and the method has no \<^verbatim>\<open>throw\<close>.
\<close>

definition step :: "CartPoleEnv \<Rightarrow> real \<Rightarrow> StepResult \<times> CartPoleEnv" where
  "step env action =
    (let s = state env;
         force = (if action = 1 then forceMag else - forceMag);
         costheta = cos (theta s);
         sintheta = sin (theta s);
         temp = (force + poleMassLength * thetaDot s * thetaDot s * sintheta) / totalMass;
         thetaAcc =
           (gravity * sintheta - costheta * temp) /
           (length_pole * (4.0 / 3.0 - (massPole * costheta * costheta) / totalMass));
         xAcc = temp - (poleMassLength * thetaAcc * costheta) / totalMass;
         nextX = x s + tau * xDot s;
         nextXDot = xDot s + tau * xAcc;
         nextTheta = theta s + tau * thetaDot s;
         nextThetaDot = thetaDot s + tau * thetaAcc;
         s' = \<lparr>x = nextX, xDot = nextXDot, theta = nextTheta, thetaDot = nextThetaDot\<rparr>;
         d = (nextX < - CARTPOLE_THRESHOLDS_x \<or>
              nextX > CARTPOLE_THRESHOLDS_x \<or>
              nextTheta < - CARTPOLE_THRESHOLDS_theta \<or>
              nextTheta > CARTPOLE_THRESHOLDS_theta)
     in (\<lparr>nextState = s', reward = 1, done = d\<rparr>, env\<lparr>state := s'\<rparr>))"

text \<open>
  The equations of motion as the specification prints them, with the constants written
  out and the force a parameter; used to say which force a call of \<^const>\<open>step\<close> applied.
\<close>

definition spec_accelerations :: "real \<Rightarrow> CartPoleState \<Rightarrow> real \<times> real" where
  "spec_accelerations force s =
    (let temp = (force + 0.05 * (thetaDot s)\<^sup>2 * sin (theta s)) / 1.1;
         thetaAcc = (9.8 * sin (theta s) - cos (theta s) * temp) /
                    (0.5 * (4 / 3 - 0.1 * (cos (theta s))\<^sup>2 / 1.1));
         xAcc = temp - 0.05 * thetaAcc * cos (theta s) / 1.1
     in (xAcc, thetaAcc))"

definition spec_euler :: "real \<Rightarrow> CartPoleState \<Rightarrow> CartPoleState" where
  "spec_euler force s =
    (let (xAcc, thetaAcc) = spec_accelerations force s
     in \<lparr>x = x s + 0.02 * xDot s,
         xDot = xDot s + 0.02 * xAcc,
         theta = theta s + 0.02 * thetaDot s,
         thetaDot = thetaDot s + 0.02 * thetaAcc\<rparr>)"

section \<open>Arrays as shared objects: \<^verbatim>\<open>getWeights\<close>\<close>

text \<open>
  A JavaScript array is an object, and a field or a variable holds a reference to it.
  To follow what a caller can do with the value \<^verbatim>\<open>getWeights\<close> returns, the arrays
  live in a store: an address holds an array of numbers, or (for \<^verbatim>\<open>number[][]\<close>)
  an array of the addresses of its rows.
\<close>

type_synonym addr = nat

datatype js_array = Numbers "real list" | Rows "addr list"

type_synonym store = "addr \<Rightarrow> js_array option"

text \<open>\<^verbatim>\<open>NeuralNetworkWeights\<close> of \<^verbatim>\<open>types.ts\<close>: four fields, each a reference to an array.\<close>

record NeuralNetworkWeights =
  w1 :: addr
  b1 :: addr
  w2 :: addr
  b2 :: addr

text \<open>The same four fields of the agent object, as the references they hold.\<close>

record AgentRefs =
  w1_ref :: addr
  b1_ref :: addr
  w2_ref :: addr
  b2_ref :: addr

definition getWeights :: "AgentRefs \<Rightarrow> NeuralNetworkWeights" where
  "getWeights this = \<lparr>w1 = w1_ref this, b1 = b1_ref this, w2 = w2_ref this, b2 = b2_ref this\<rparr>"

text \<open>The numbers a reference to a \<^verbatim>\<open>number[]\<close> or a \<^verbatim>\<open>number[][]\<close> leads to.\<close>

definition read_numbers :: "store \<Rightarrow> addr \<Rightarrow> real list option" where
  "read_numbers st r = (case st r of Some (Numbers v) \<Rightarrow> Some v | _ \<Rightarrow> None)"

definition read_matrix :: "store \<Rightarrow> addr \<Rightarrow> real list list option" where
  "read_matrix st r =
     (case st r of Some (Rows rs) \<Rightarrow> those (map (read_numbers st) rs) | _ \<Rightarrow> None)"

text \<open>
  The assignments \<^verbatim>\<open>v[i] = c\<close> and \<^verbatim>\<open>m[i][j] = c\<close> a caller can make through a
  reference, at an index the array holds (an assignment past the end would extend the
  array, which no array of numbers models).
\<close>

definition write_number :: "store \<Rightarrow> addr \<Rightarrow> nat \<Rightarrow> real \<Rightarrow> store option" where
  "write_number st r i c =
     (case st r of
        Some (Numbers v) \<Rightarrow> if i < length v then Some (st(r \<mapsto> Numbers (v[i := c]))) else None
      | _ \<Rightarrow> None)"

definition write_entry :: "store \<Rightarrow> addr \<Rightarrow> nat \<Rightarrow> nat \<Rightarrow> real \<Rightarrow> store option" where
  "write_entry st r i j c =
     (case st r of
        Some (Rows rs) \<Rightarrow> if i < length rs then write_number st (rs ! i) j c else None
      | _ \<Rightarrow> None)"

text \<open>The rows of a matrix are different arrays, as \<^verbatim>\<open>randomMatrix\<close> builds them.\<close>

definition distinct_rows :: "store \<Rightarrow> addr \<Rightarrow> bool" where
  "distinct_rows st r = (case st r of Some (Rows rs) \<Rightarrow> distinct rs | _ \<Rightarrow> False)"

text \<open>The live parameters of the agent: what its own four references lead to.\<close>

definition live_weights ::
  "store \<Rightarrow> AgentRefs \<Rightarrow>
     real list list option \<times> real list option \<times> real list list option \<times> real list option" where
  "live_weights st this =
     (read_matrix st (w1_ref this), read_numbers st (b1_ref this),
      read_matrix st (w2_ref this), read_numbers st (b2_ref this))"

text \<open>
  An agent of hidden width 1 in a store: \<^verbatim>\<open>w1\<close> at address 0 with its four rows at
  1 to 4, \<^verbatim>\<open>b1\<close> at 5, \<^verbatim>\<open>w2\<close> at 6 with its row at 7, and \<^verbatim>\<open>b2\<close> at 8.
\<close>

definition example_refs :: AgentRefs where
  "example_refs = \<lparr>w1_ref = 0, b1_ref = 5, w2_ref = 6, b2_ref = 8\<rparr>"

definition example_store :: store where
  "example_store =
     [0 \<mapsto> Rows [1, 2, 3, 4],
      1 \<mapsto> Numbers [1], 2 \<mapsto> Numbers [2], 3 \<mapsto> Numbers [3], 4 \<mapsto> Numbers [4],
      5 \<mapsto> Numbers [0],
      6 \<mapsto> Rows [7], 7 \<mapsto> Numbers [1, - 1],
      8 \<mapsto> Numbers [0, 0]]"

section \<open>The agent: \<^verbatim>\<open>PolicyGradientAgent\<close>\<close>

record LayerActivations =
  input :: "real list"
  hidden :: "real list"
  "output" :: "real list"

text \<open>
  The fields of the class.  \<^verbatim>\<open>inputSize\<close> and \<^verbatim>\<open>outputSize\<close> keep their
  initialisers 4 and 2 for the life of an agent and are constants of the model;
  \<^verbatim>\<open>hiddenSize\<close>, \<^verbatim>\<open>learningRate\<close> and \<^verbatim>\<open>gamma\<close> come from the configuration.
  The arrays are held here by value: \<^verbatim>\<open>randomMatrix\<close> and \<^verbatim>\<open>zeroVector\<close> build
  every row and vector as an array of its own, so an assignment to one element changes no
  other.
\<close>

definition inputSize :: nat where "inputSize = 4"
definition outputSize :: nat where "outputSize = 2"

record PolicyGradientAgent =
  hiddenSize :: nat
  learningRate :: real
  gamma :: real
  w1 :: "real list list"
  b1 :: "real list"
  w2 :: "real list list"
  b2 :: "real list"
  episodeStates :: "real list list"
  episodeHiddens :: "real list list"
  episodeProbs :: "real list list"
  episodeActions :: "real list"
  episodeRewards :: "real list"

text \<open>
  The shapes the constructor establishes: \<^verbatim>\<open>w1\<close> is \<^verbatim>\<open>inputSize\<close> rows of
  \<^verbatim>\<open>hiddenSize\<close> numbers, \<^verbatim>\<open>b1\<close> is \<^verbatim>\<open>hiddenSize\<close> numbers, \<^verbatim>\<open>w2\<close> is
  \<^verbatim>\<open>hiddenSize\<close> rows of \<^verbatim>\<open>outputSize\<close> numbers, \<^verbatim>\<open>b2\<close> is \<^verbatim>\<open>outputSize\<close>
  numbers.  No method resizes an array.
\<close>

definition shaped :: "PolicyGradientAgent \<Rightarrow> bool" where
  "shaped a \<longleftrightarrow>
     length (w1 a) = inputSize \<and> list_all (\<lambda>row. length row = hiddenSize a) (w1 a) \<and>
     length (b1 a) = hiddenSize a \<and>
     length (w2 a) = hiddenSize a \<and> list_all (\<lambda>row. length row = outputSize) (w2 a) \<and>
     length (b2 a) = outputSize"

text \<open>The five episode arrays have one length.\<close>

definition aligned :: "PolicyGradientAgent \<Rightarrow> bool" where
  "aligned a \<longleftrightarrow>
     length (episodeStates a) = length (episodeRewards a) \<and>
     length (episodeHiddens a) = length (episodeRewards a) \<and>
     length (episodeProbs a) = length (episodeRewards a) \<and>
     length (episodeActions a) = length (episodeRewards a)"

text \<open>An activation snapshot of the shape \<^verbatim>\<open>predict\<close> returns for hidden width \<open>H\<close>.\<close>

definition shaped_activations :: "nat \<Rightarrow> LayerActivations \<Rightarrow> bool" where
  "shaped_activations H acts \<longleftrightarrow>
     length (input acts) = inputSize \<and> length (hidden acts) = H \<and>
     length (output acts) = outputSize"

definition buffer_shaped :: "PolicyGradientAgent \<Rightarrow> bool" where
  "buffer_shaped a \<longleftrightarrow>
     aligned a \<and>
     list_all (\<lambda>v. length v = inputSize) (episodeStates a) \<and>
     list_all (\<lambda>v. length v = hiddenSize a) (episodeHiddens a) \<and>
     list_all (\<lambda>v. length v = outputSize) (episodeProbs a)"

text \<open>
  An index past the end of a JavaScript array reads \<^verbatim>\<open>undefined\<close>; the arithmetic
  of \<^verbatim>\<open>predict\<close> and \<^verbatim>\<open>train\<close> then yields NaN, or a \<^verbatim>\<open>TypeError\<close> when the
  missing element is a row.  Neither is a real number, so the model of these two methods
  covers the agents and buffers of the shapes above and returns this error value for
  any other.
\<close>

datatype js_error = OutOfShape

definition resetMemory :: "PolicyGradientAgent \<Rightarrow> PolicyGradientAgent" where
  "resetMemory a =
     a\<lparr>episodeStates := [], episodeHiddens := [], episodeProbs := [],
       episodeActions := [], episodeRewards := []\<rparr>"

subsection \<open>\<^verbatim>\<open>softmax\<close> of \<^verbatim>\<open>math.ts\<close>\<close>



subsection \<open>\<^verbatim>\<open>predict\<close>\<close>


subsection \<open>\<^verbatim>\<open>storeStep\<close>\<close>

definition storeStep ::
  "PolicyGradientAgent \<Rightarrow> LayerActivations \<Rightarrow> real \<Rightarrow> real \<Rightarrow> PolicyGradientAgent" where
  "storeStep a activations action rew =
     a\<lparr>episodeStates := episodeStates a @ [input activations],
       episodeHiddens := episodeHiddens a @ [hidden activations],
       episodeProbs := episodeProbs a @ [output activations],
       episodeActions := episodeActions a @ [action],
       episodeRewards := episodeRewards a @ [rew]\<rparr>"

subsection \<open>\<^verbatim>\<open>train\<close>\<close>

text \<open>
  The discounted returns: the loop runs \<open>t\<close> from \<open>N - 1\<close> down to 0 over an array of
  \<open>N\<close> zeros.
\<close>

definition discounted_returns :: "real \<Rightarrow> real list \<Rightarrow> real list" where
  "discounted_returns gam rewards =
    (let N = length rewards
     in snd (fold (\<lambda>t (runningAdd, returns).
                     let runningAdd' = runningAdd * gam + rewards ! t
                     in (runningAdd', returns[t := runningAdd']))
                  (rev [0..<N]) (0, replicate N 0)))"

text \<open>
  The normalisation.  For \<open>N = 0\<close> the program divides 0 by 0: \<^verbatim>\<open>mean\<close> is NaN, the
  square root is NaN, and \<^verbatim>\<open>NaN || 1\<close> is 1; \<^verbatim>\<open>mean\<close> is then used by no one, the
  map being over an empty array.  For \<open>N > 0\<close> the \<^verbatim>\<open>|| 1\<close> replaces a root that is 0.
\<close>

definition returns_mean :: "real list \<Rightarrow> real" where
  "returns_mean returns = foldl (\<lambda>a b. a + b) 0 returns / real (length returns)"

definition returns_std :: "real list \<Rightarrow> real" where
  "returns_std returns =
    (let N = length returns; mean = returns_mean returns
     in if N = 0 then 1
        else let sd = sqrt (foldl (\<lambda>a b. a + (b - mean)\<^sup>2) 0 returns / real N)
             in if sd = 0 then 1 else sd)"

definition normReturns :: "real list \<Rightarrow> real list" where
  "normReturns returns =
    (let mean = returns_mean returns; std = returns_std returns
     in map (\<lambda>r. (r - mean) / std) returns)"

text \<open>\<^verbatim>\<open>v[i] += d\<close>, \<^verbatim>\<open>m[i][j] += d\<close> and their \<^verbatim>\<open>-=\<close> forms, on arrays that hold index \<open>i\<close> (and \<open>j\<close>).\<close>

definition add_at :: "real list \<Rightarrow> nat \<Rightarrow> real \<Rightarrow> real list" where
  "add_at v i d = v[i := v ! i + d]"

definition add_at2 :: "real list list \<Rightarrow> nat \<Rightarrow> nat \<Rightarrow> real \<Rightarrow> real list list" where
  "add_at2 m i j d = m[i := add_at (m ! i) j d]"

definition sub_at :: "real list \<Rightarrow> nat \<Rightarrow> real \<Rightarrow> real list" where
  "sub_at v i d = v[i := v ! i - d]"

definition sub_at2 :: "real list list \<Rightarrow> nat \<Rightarrow> nat \<Rightarrow> real \<Rightarrow> real list list" where
  "sub_at2 m i j d = m[i := sub_at (m ! i) j d]"

record Gradients =
  dW2 :: "real list list"
  db2 :: "real list"
  dW1 :: "real list list"
  db1 :: "real list"

text \<open>The four accumulators, zero arrays of the shapes of the parameters.\<close>

definition zero_gradients :: "PolicyGradientAgent \<Rightarrow> Gradients" where
  "zero_gradients a =
     \<lparr>dW2 = map (\<lambda>row. map (\<lambda>_. 0) row) (w2 a),
      db2 = map (\<lambda>_. 0) (b2 a),
      dW1 = map (\<lambda>row. map (\<lambda>_. 0) row) (w1 a),
      db1 = map (\<lambda>_. 0) (b1 a)\<rparr>"

text \<open>
  The body of the loop over the time steps, for step \<open>t\<close>; the output index \<^verbatim>\<open>o\<close> of
  the program is written \<open>oi\<close>.
\<close>

definition accumulate :: "PolicyGradientAgent \<Rightarrow> real list \<Rightarrow> nat \<Rightarrow> Gradients \<Rightarrow> Gradients" where
  "accumulate a normRet t g =
    (let prob = episodeProbs a ! t;
         action = episodeActions a ! t;
         hiddenv = episodeHiddens a ! t;
         inputv = episodeStates a ! t;
         adv = normRet ! t;
         dLogits = [prob ! 0 - (if action = 0 then 1 else 0),
                    prob ! 1 - (if action = 1 then 1 else 0)];
         (dW2', db2') =
           fold (\<lambda>oi (m, v).
                   let gradTerm = dLogits ! oi * adv
                   in (fold (\<lambda>h m. add_at2 m h oi (hiddenv ! h * gradTerm)) [0..<hiddenSize a] m,
                       add_at v oi gradTerm))
                [0..<outputSize] (dW2 g, db2 g);
         dHidden =
           map (\<lambda>h. fold (\<lambda>oi sum. sum + dLogits ! oi * adv * w2 a ! h ! oi) [0..<outputSize] 0
                     * (1 - hiddenv ! h * hiddenv ! h))
               [0..<hiddenSize a];
         (dW1', db1') =
           fold (\<lambda>h (m, v).
                   (fold (\<lambda>i m. add_at2 m i h (inputv ! i * dHidden ! h)) [0..<inputSize] m,
                    add_at v h (dHidden ! h)))
                [0..<hiddenSize a] (dW1 g, db1 g)
     in \<lparr>dW2 = dW2', db2 = db2', dW1 = dW1', db1 = db1'\<rparr>)"

text \<open>The four loops that apply the gradients.\<close>

definition apply_gradients :: "PolicyGradientAgent \<Rightarrow> Gradients \<Rightarrow> PolicyGradientAgent" where
  "apply_gradients a g =
    (let w1' = fold (\<lambda>i m. fold (\<lambda>j m. sub_at2 m i j (learningRate a * dW1 g ! i ! j))
                              [0..<hiddenSize a] m)
                    [0..<inputSize] (w1 a);
         b1' = fold (\<lambda>i v. sub_at v i (learningRate a * db1 g ! i)) [0..<hiddenSize a] (b1 a);
         w2' = fold (\<lambda>i m. fold (\<lambda>j m. sub_at2 m i j (learningRate a * dW2 g ! i ! j))
                              [0..<outputSize] m)
                    [0..<hiddenSize a] (w2 a);
         b2' = fold (\<lambda>i v. sub_at v i (learningRate a * db2 g ! i)) [0..<outputSize] (b2 a)
     in a\<lparr>w1 := w1', b1 := b1', w2 := w2', b2 := b2'\<rparr>)"

definition train :: "PolicyGradientAgent \<Rightarrow> js_error + PolicyGradientAgent" where
  "train a =
    (if \<not> (shaped a \<and> buffer_shaped a) then Inl OutOfShape
     else
       let N = length (episodeRewards a);
           returns = discounted_returns (gamma a) (episodeRewards a);
           normRet = normReturns returns;
           g = fold (accumulate a normRet) [0..<N] (zero_gradients a)
       in Inr (resetMemory (apply_gradients a g)))"

text \<open>
  The return of a reward sequence from its first step on, by the recurrence of the
  specification: the last return is the last reward, every other one is its reward plus
  the discounted return of the next step.
\<close>

fun ret_from :: "real \<Rightarrow> real list \<Rightarrow> real" where
  "ret_from gam [] = 0"
| "ret_from gam (r # rs) = r + gam * ret_from gam rs"

subsection \<open>The update of the specification\<close>

text \<open>
  The REINFORCE update as the specification words it, over the buffer of an agent:
  the advantage of a step, the error signal of an output unit (probability minus the
  one-hot coding of the action taken, times the advantage), the error of a hidden unit
  (the output errors carried back through \<^verbatim>\<open>w2\<close>, times the derivative
  \<open>1 - h\<^sup>2\<close> of \<open>tanh\<close>), and the four gradients as sums over the time steps.
\<close>

definition advantages :: "PolicyGradientAgent \<Rightarrow> real list" where
  "advantages a = normReturns (discounted_returns (gamma a) (episodeRewards a))"

definition onehot :: "real \<Rightarrow> nat \<Rightarrow> real" where
  "onehot action k = (if action = real k then 1 else 0)"

definition output_error :: "PolicyGradientAgent \<Rightarrow> nat \<Rightarrow> nat \<Rightarrow> real" where
  "output_error a t k =
     (episodeProbs a ! t ! k - onehot (episodeActions a ! t) k) * advantages a ! t"

definition hidden_error :: "PolicyGradientAgent \<Rightarrow> nat \<Rightarrow> nat \<Rightarrow> real" where
  "hidden_error a t h =
     (\<Sum>k<outputSize. output_error a t k * w2 a ! h ! k) * (1 - (episodeHiddens a ! t ! h)\<^sup>2)"

definition grad_W2 :: "PolicyGradientAgent \<Rightarrow> nat \<Rightarrow> nat \<Rightarrow> real" where
  "grad_W2 a h k = (\<Sum>t<length (episodeRewards a). episodeHiddens a ! t ! h * output_error a t k)"

definition grad_b2 :: "PolicyGradientAgent \<Rightarrow> nat \<Rightarrow> real" where
  "grad_b2 a k = (\<Sum>t<length (episodeRewards a). output_error a t k)"

definition grad_W1 :: "PolicyGradientAgent \<Rightarrow> nat \<Rightarrow> nat \<Rightarrow> real" where
  "grad_W1 a i h = (\<Sum>t<length (episodeRewards a). episodeStates a ! t ! i * hidden_error a t h)"

definition grad_b1 :: "PolicyGradientAgent \<Rightarrow> nat \<Rightarrow> real" where
  "grad_b1 a h = (\<Sum>t<length (episodeRewards a). hidden_error a t h)"

text \<open>Rectangular matrices, and accumulators of the shapes of the parameters.\<close>

definition dims :: "nat \<Rightarrow> nat \<Rightarrow> real list list \<Rightarrow> bool" where
  "dims r c m \<longleftrightarrow> length m = r \<and> list_all (\<lambda>row. length row = c) m"

definition grad_dims :: "nat \<Rightarrow> Gradients \<Rightarrow> bool" where
  "grad_dims H g \<longleftrightarrow>
     dims H outputSize (dW2 g) \<and> length (db2 g) = outputSize \<and>
     dims inputSize H (dW1 g) \<and> length (db1 g) = H"

subsection \<open>A small agent\<close>

text \<open>
  An agent of hidden width 1 with a buffer of two steps, on which the theorems are run:
  its returns are \<open>[3, 1]\<close>, its advantages \<open>[1, -1]\<close>.
\<close>

definition example_agent :: PolicyGradientAgent where
  "example_agent =
     \<lparr>hiddenSize = 1, learningRate = 1 / 2, gamma = 1,
      w1 = [[1], [2], [3], [4]], b1 = [0], w2 = [[1, - 1]], b2 = [0, 0],
      episodeStates = [[1, 0, 0, 0], [0, 1, 0, 0]],
      episodeHiddens = [[1 / 2], [1 / 4]],
      episodeProbs = [[1 / 2, 1 / 2], [1 / 4, 3 / 4]],
      episodeActions = [0, 1],
      episodeRewards = [2, 1]\<rparr>"

subsection \<open>Sequences of calls\<close>

text \<open>
  The driver calls \<^verbatim>\<open>storeStep\<close> and \<^verbatim>\<open>train\<close> in some order; a sequence of such
  calls runs from left to right and stops at the first call that fails.
\<close>

datatype agent_call = StoreStep LayerActivations real real | Train

fun run_calls :: "PolicyGradientAgent \<Rightarrow> agent_call list \<Rightarrow> js_error + PolicyGradientAgent" where
  "run_calls a [] = Inr a"
| "run_calls a (StoreStep activations action rew # calls) =
     run_calls (storeStep a activations action rew) calls"
| "run_calls a (Train # calls) =
     (case train a of Inl e \<Rightarrow> Inl e | Inr a' \<Rightarrow> run_calls a' calls)"

fun call_shaped :: "nat \<Rightarrow> agent_call \<Rightarrow> bool" where
  "call_shaped H (StoreStep activations action rew) = shaped_activations H activations"
| "call_shaped H Train = True"

definition buffer_empty :: "PolicyGradientAgent \<Rightarrow> bool" where
  "buffer_empty a \<longleftrightarrow>
     episodeStates a = [] \<and> episodeHiddens a = [] \<and> episodeProbs a = [] \<and>
     episodeActions a = [] \<and> episodeRewards a = []"


definition example_calls :: "agent_call list" where
  "example_calls =
     [StoreStep \<lparr>input = [0, 0, 0, 0], hidden = [0], output = [1 / 2, 1 / 2]\<rparr> 1 1,
      Train,
      StoreStep \<lparr>input = [1, 0, 1, 0], hidden = [1 / 2], output = [1 / 4, 3 / 4]\<rparr> 0 1,
      StoreStep \<lparr>input = [1, 1, 1, 0], hidden = [1 / 3], output = [3 / 4, 1 / 4]\<rparr> 1 1,
      Train]"

subsection \<open>The forward pass of the specification\<close>




subsection \<open>The normalisation in double arithmetic\<close>

text \<open>
  Whether returns that are all the same number have the advantage 0 depends on how the
  operations round.  Here the normalisation is written once more with the rounding of
  every operation explicit: \<open>rd\<close> is applied to the result of each addition,
  subtraction, squaring, division and square root, in the order the program performs
  them (\<^verbatim>\<open>Math.pow(d, 2)\<close> as the rounded square of \<open>d\<close>).  With the identity for
  \<open>rd\<close> this is the exact arithmetic of \<^const>\<open>normReturns\<close>; with \<open>round_double\<close>
  below it is the arithmetic of a JavaScript \<^verbatim>\<open>number\<close>.
\<close>

definition returns_mean_rd :: "(real \<Rightarrow> real) \<Rightarrow> real list \<Rightarrow> real" where
  "returns_mean_rd rd returns =
     rd (foldl (\<lambda>a b. rd (a + b)) 0 returns / real (length returns))"

definition returns_std_rd :: "(real \<Rightarrow> real) \<Rightarrow> real list \<Rightarrow> real" where
  "returns_std_rd rd returns =
    (let N = length returns; mean = returns_mean_rd rd returns
     in if N = 0 then 1
        else let sd = rd (sqrt (rd (foldl (\<lambda>a b. rd (a + rd ((rd (b - mean))\<^sup>2))) 0 returns
                                     / real N)))
             in if sd = 0 then 1 else sd)"

definition normReturns_rd :: "(real \<Rightarrow> real) \<Rightarrow> real list \<Rightarrow> real list" where
  "normReturns_rd rd returns =
    (let mean = returns_mean_rd rd returns; std = returns_std_rd rd returns
     in map (\<lambda>r. rd (rd (r - mean) / std)) returns)"

text \<open>
  Rounding to the nearest binary64 number, ties to the even significand: 53 significant
  bits, the exponent of the value not below -1022.  Results beyond the largest double
  (which round to an infinity) are not modelled; none occurs below.
\<close>

definition pow2 :: "int \<Rightarrow> real" where
  "pow2 e = (if 0 \<le> e then 2 ^ nat e else 1 / 2 ^ nat (- e))"

definition round_half_even :: "real \<Rightarrow> int" where
  "round_half_even y =
    (let f = \<lfloor>y\<rfloor>; r = y - of_int f
     in if r < 1 / 2 then f else if 1 / 2 < r then f + 1 else if even f then f else f + 1)"

definition round_double :: "real \<Rightarrow> real" where
  "round_double v =
    (if v = 0 then 0
     else let e = max \<lfloor>log 2 \<bar>v\<bar>\<rfloor> (- 1022); ulp = pow2 (e - 52)
          in of_int (round_half_even (v / ulp)) * ulp)"

text \<open>
  The double written \<^verbatim>\<open>0.1\<close>, the double \<^verbatim>\<open>0.30000000000000004\<close> that the program
  gets for the sum of three of them, and the double \<^verbatim>\<open>0.10000000000000002\<close> it gets
  for their mean.
\<close>

definition tenth :: real where
  "tenth = 3602879701896397 / 2 ^ 55"

definition three_tenths :: real where
  "three_tenths = 5404319552844596 / 2 ^ 54"

definition mean_tenths :: real where
  "mean_tenths = 7205759403792795 / 2 ^ 56"

subsection \<open>An agent for the forward pass\<close>




section \<open>Properties of the environment\<close>

lemma step_nextState:
  "nextState (fst (step env action)) =
     spec_euler (if action = 1 then 10 else - 10) (state env)"
  by (simp add: step_def spec_euler_def spec_accelerations_def Let_def power2_eq_square
      gravity_def massPole_def totalMass_def length_pole_def poleMassLength_def
      forceMag_def tau_def)

lemma step_state: "state (snd (step env action)) = nextState (fst (step env action))"
  by (simp add: step_def Let_def)

text \<open>
  C4.  From any state and for any action, \<^const>\<open>step\<close> computes \<open>temp\<close>, \<open>thetaAcc\<close>
  and \<open>xAcc\<close> by the printed equations with the constants 0.05, 1.1, 9.8, 0.5, 0.1 and
  a force of magnitude 10 signed by the action, and the new state (returned, and stored in
  the environment) is one explicit Euler step of length 0.02 that uses the velocities and
  accelerations of the state before the step.
\<close>

theorem step_euler_dynamics:
  "(let s = state env;
        force = (if action = 1 then 10 else - 10);
        temp = (force + 0.05 * (thetaDot s)\<^sup>2 * sin (theta s)) / 1.1;
        thetaAcc = (9.8 * sin (theta s) - cos (theta s) * temp) /
                   (0.5 * (4 / 3 - 0.1 * (cos (theta s))\<^sup>2 / 1.1));
        xAcc = temp - 0.05 * thetaAcc * cos (theta s) / 1.1;
        s' = \<lparr>x = x s + 0.02 * xDot s,
              xDot = xDot s + 0.02 * xAcc,
              theta = theta s + 0.02 * thetaDot s,
              thetaDot = thetaDot s + 0.02 * thetaAcc\<rparr>
    in nextState (fst (step env action)) = s' \<and> state (snd (step env action)) = s')"
  by (simp add: step_def Let_def power2_eq_square
      gravity_def massPole_def totalMass_def length_pole_def poleMassLength_def
      forceMag_def tau_def)

text \<open>
  C6.  The returned flag is true exactly when the new cart position is strictly outside
  \<open>[-2.4, 2.4]\<close> or the new pole angle strictly outside plus or minus twelve degrees in
  radians.  A new position of 2.41 gives true; a new position 0 with a new angle 0 gives
  false.
\<close>

theorem step_done_iff:
  "(let r = fst (step env action); s' = nextState r
    in (done r \<longleftrightarrow> \<bar>x s'\<bar> > 2.4 \<or> \<bar>theta s'\<bar> > 12 * pi / 180) \<and>
       (x s' = 2.41 \<longrightarrow> done r) \<and>
       (x s' = 0 \<and> theta s' = 0 \<longrightarrow> \<not> done r))"
proof -
  define nx where "nx = x (nextState (fst (step env action)))"
  define nt where "nt = theta (nextState (fst (step env action)))"
  have d: "done (fst (step env action)) \<longleftrightarrow>
      nx < - 2.4 \<or> nx > 2.4 \<or> nt < - (12 * (pi / 180)) \<or> nt > 12 * (pi / 180)"
    by (simp add: nx_def nt_def step_def Let_def CARTPOLE_THRESHOLDS_x_def
        CARTPOLE_THRESHOLDS_theta_def)
  have p: "0 < 12 * (pi / 180)"
    by simp
  have "(done (fst (step env action)) \<longleftrightarrow> \<bar>nx\<bar> > 2.4 \<or> \<bar>nt\<bar> > 12 * pi / 180) \<and>
        (nx = 2.41 \<longrightarrow> done (fst (step env action))) \<and>
        (nx = 0 \<and> nt = 0 \<longrightarrow> \<not> done (fst (step env action)))"
    using d p by (auto simp add: abs_if)
  then show ?thesis
    by (simp add: Let_def nx_def nt_def)
qed

theorem step_done_iff_witness:
  "x (nextState (fst (step \<lparr>state = \<lparr>x = 2.41, xDot = 0, theta = 0, thetaDot = 0\<rparr>\<rparr> 0))) = 2.41 \<and>
   done (fst (step \<lparr>state = \<lparr>x = 2.41, xDot = 0, theta = 0, thetaDot = 0\<rparr>\<rparr> 0)) \<and>
   x (nextState (fst (step \<lparr>state = \<lparr>x = 0, xDot = 0, theta = 0, thetaDot = 0\<rparr>\<rparr> 1))) = 0 \<and>
   theta (nextState (fst (step \<lparr>state = \<lparr>x = 0, xDot = 0, theta = 0, thetaDot = 0\<rparr>\<rparr> 1))) = 0 \<and>
   \<not> done (fst (step \<lparr>state = \<lparr>x = 0, xDot = 0, theta = 0, thetaDot = 0\<rparr>\<rparr> 1))"
proof -
  have a: "x (nextState (fst (step \<lparr>state = \<lparr>x = 2.41, xDot = 0, theta = 0, thetaDot = 0\<rparr>\<rparr> 0))) = 2.41"
    by (simp add: step_def Let_def tau_def)
  have b: "x (nextState (fst (step \<lparr>state = \<lparr>x = 0, xDot = 0, theta = 0, thetaDot = 0\<rparr>\<rparr> 1))) = 0"
    and c: "theta (nextState (fst (step \<lparr>state = \<lparr>x = 0, xDot = 0, theta = 0, thetaDot = 0\<rparr>\<rparr> 1))) = 0"
    by (simp_all add: step_def Let_def tau_def)
  from a b c
    step_done_iff [of "\<lparr>state = \<lparr>x = 2.41, xDot = 0, theta = 0, thetaDot = 0\<rparr>\<rparr>" 0]
    step_done_iff [of "\<lparr>state = \<lparr>x = 0, xDot = 0, theta = 0, thetaDot = 0\<rparr>\<rparr>" 1]
  show ?thesis
    unfolding Let_def by blast
qed

text \<open>
  C10.  Every action other than the number 1 (0, 2, -1, one half, ...) makes \<^const>\<open>step\<close>
  integrate with the force -10, and action 1 with the force +10.  \<^const>\<open>step\<close> has a result
  for every action: the method has no rejecting branch.
\<close>

theorem step_force_by_action:
  "(action \<noteq> 1 \<longrightarrow> nextState (fst (step env action)) = spec_euler (- 10) (state env)) \<and>
   (action = 1 \<longrightarrow> nextState (fst (step env action)) = spec_euler 10 (state env)) \<and>
   state (snd (step env action)) = nextState (fst (step env action)) \<and>
   reward (fst (step env action)) = 1"
  by (simp add: step_nextState step_state) (simp add: step_def Let_def)

theorem step_force_by_action_witness:
  "(2::real) \<noteq> 1 \<and>
   nextState (fst (step \<lparr>state = \<lparr>x = 0, xDot = 0, theta = 0, thetaDot = 0\<rparr>\<rparr> 2)) =
     \<lparr>x = 0, xDot = - (8 / 41), theta = 0, thetaDot = 12 / 41\<rparr> \<and>
   nextState (fst (step \<lparr>state = \<lparr>x = 0, xDot = 0, theta = 0, thetaDot = 0\<rparr>\<rparr> 1)) =
     \<lparr>x = 0, xDot = 8 / 41, theta = 0, thetaDot = - (12 / 41)\<rparr>"
  using step_force_by_action [of 2 "\<lparr>state = \<lparr>x = 0, xDot = 0, theta = 0, thetaDot = 0\<rparr>\<rparr>"]
    step_force_by_action [of 1 "\<lparr>state = \<lparr>x = 0, xDot = 0, theta = 0, thetaDot = 0\<rparr>\<rparr>"]
  by (simp add: spec_euler_def spec_accelerations_def Let_def)

section \<open>Properties of the training step\<close>

subsection \<open>Discounted returns\<close>

lemma returns_loop:
  assumes "k \<le> length rewards"
  shows "foldr (\<lambda>t (runningAdd, returns).
                     let runningAdd' = runningAdd * gam + rewards ! t
                     in (runningAdd', returns[t := runningAdd']))
               [k..<length rewards] (0, replicate (length rewards) 0) =
         (ret_from gam (drop k rewards),
          replicate k 0 @ map (\<lambda>t. ret_from gam (drop t rewards)) [k..<length rewards])"
  using assms
proof (induction k rule: inc_induct)
  case base
  then show ?case by simp
next
  case (step n)
  have d: "drop n rewards = rewards ! n # drop (Suc n) rewards"
    using step.hyps by (simp add: Cons_nth_drop_Suc)
  have u: "[n..<length rewards] = n # [Suc n..<length rewards]"
    using step.hyps by (simp add: upt_conv_Cons)
  have l: "(replicate (Suc n) 0 @ ys)[n := v] = replicate n 0 @ v # ys" for ys and v :: real
  proof -
    have "replicate (Suc n) 0 @ ys = replicate n (0::real) @ 0 # ys"
      by (simp add: replicate_app_Cons_same)
    then show ?thesis
      using list_update_length [of "replicate n 0" 0 ys v] by simp
  qed
  show ?case
    by (simp only: u foldr.simps o_apply step.IH) (simp add: d l Let_def del: replicate_Suc)
qed

lemma discounted_returns_eq:
  "discounted_returns gam rewards = map (\<lambda>t. ret_from gam (drop t rewards)) [0..<length rewards]"
  using returns_loop [of 0 rewards gam]
  by (simp add: discounted_returns_def Let_def foldr_conv_fold)

lemma foldl_add_sum: "foldl (\<lambda>a b. a + f b) s xs = s + (\<Sum>v\<leftarrow>xs. f v)" for s :: real
  by (induction xs arbitrary: s) (simp_all add: add.assoc)

text \<open>
  C2.  The returns \<^verbatim>\<open>train\<close> computes from the rewards \<open>r\<close> of the buffer and the
  discount \<open>gam\<close> are as many as the rewards; the last one is the last reward, and every
  earlier one is its reward plus \<open>gam\<close> times the return of the next step.  For three
  rewards 1 and discount 0.99 the return of step 0 is \<open>1 + 0.99 + 0.99\<^sup>2 = 2.9701\<close>.
\<close>

theorem discounted_returns_backward:
  "(let N = length rewards; G = discounted_returns gam rewards
    in length G = N \<and>
       (0 < N \<longrightarrow> G ! (N - 1) = rewards ! (N - 1)) \<and>
       (\<forall>t. Suc t < N \<longrightarrow> G ! t = rewards ! t + gam * G ! Suc t)) \<and>
   discounted_returns 0.99 [1, 1, 1] ! 0 = 1 + 0.99 + 0.99\<^sup>2 \<and>
   discounted_returns 0.99 [1, 1, 1] ! 0 = 2.9701"
proof -
  let ?N = "length rewards"
  let ?G = "discounted_returns gam rewards"
  have len: "length ?G = ?N"
    by (simp add: discounted_returns_eq)
  have nth: "?G ! t = ret_from gam (drop t rewards)" if "t < ?N" for t
    using that by (simp add: discounted_returns_eq)
  have last: "?G ! (?N - 1) = rewards ! (?N - 1)" if "0 < ?N"
  proof -
    have "drop (?N - 1) rewards = [rewards ! (?N - 1)]"
      using that Cons_nth_drop_Suc [of "?N - 1" rewards] by simp
    then show ?thesis
      using that nth [of "?N - 1"] by simp
  qed
  have rec: "?G ! t = rewards ! t + gam * ?G ! Suc t" if "Suc t < ?N" for t
  proof -
    have "drop t rewards = rewards ! t # drop (Suc t) rewards"
      using that by (simp add: Cons_nth_drop_Suc)
    then show ?thesis
      using that nth [of t] nth [of "Suc t"] by simp
  qed
  have ex: "discounted_returns 0.99 [1, 1, 1] ! 0 = 2.9701"
    by (simp add: discounted_returns_eq power2_eq_square)
  have ex': "(2.9701 :: real) = 1 + 0.99 + 0.99\<^sup>2"
    by (simp add: power2_eq_square)
  show ?thesis
    using len last rec ex ex' by (simp add: Let_def)
qed

theorem discounted_returns_backward_witness:
  "length (discounted_returns 0.5 [1, 2, 3]) = 3 \<and>
   discounted_returns 0.5 [1, 2, 3] ! 2 = 3 \<and>
   discounted_returns 0.5 [1, 2, 3] ! 1 = 2 + 0.5 * discounted_returns 0.5 [1, 2, 3] ! 2 \<and>
   discounted_returns 0.5 [1, 2, 3] ! 0 = 1 + 0.5 * discounted_returns 0.5 [1, 2, 3] ! 1"
proof -
  let ?G = "discounted_returns 0.5 [1, 2, 3]"
  note th = discounted_returns_backward [of "[1, 2, 3]" "0.5", unfolded Let_def]
  have l: "length ?G = 3"
    using th by simp
  have e: "?G ! 2 = 3"
    using th by (simp add: numeral_2_eq_2)
  have r: "Suc t < 3 \<Longrightarrow> ?G ! t = [1, 2, 3] ! t + 0.5 * ?G ! Suc t" for t
    using th by simp
  have "?G ! 1 = 2 + 0.5 * ?G ! 2" "?G ! 0 = 1 + 0.5 * ?G ! 1"
    using r [of 1] r [of 0] by (simp_all add: numeral_2_eq_2)
  with l e show ?thesis
    by simp
qed

subsection \<open>Normalised returns\<close>

lemma returns_mean_eq: "returns_mean returns = sum_list returns / real (length returns)"
  using foldl_add_sum [of "\<lambda>b. b" 0 returns] by (simp add: returns_mean_def)

lemma returns_std_eq:
  "returns \<noteq> [] \<Longrightarrow> returns_std returns =
     (let sd = sqrt ((\<Sum>r\<leftarrow>returns. (r - returns_mean returns)\<^sup>2) / real (length returns))
      in if sd = 0 then 1 else sd)"
  using foldl_add_sum [of "\<lambda>b. (b - returns_mean returns)\<^sup>2" 0 returns]
  by (simp add: returns_std_def Let_def)

lemma normReturns_rd_exact: "normReturns_rd (\<lambda>v. v) returns = normReturns returns"
  by (simp add: normReturns_rd_def normReturns_def returns_mean_rd_def returns_mean_def
      returns_std_rd_def returns_std_def Let_def)

lemma returns_std_rd_nonzero: "returns_std_rd rd returns \<noteq> 0"
  by (simp add: returns_std_rd_def Let_def)

lemma returns_std_nonzero: "returns_std returns \<noteq> 0"
  by (simp add: returns_std_def Let_def)

lemma sum_squares_identical:
  "rd 0 = 0 \<Longrightarrow> \<forall>r\<in>set returns. r = c \<Longrightarrow>
     foldl (\<lambda>a b. rd (a + rd ((rd (b - c))\<^sup>2))) 0 returns = 0" for rd :: "real \<Rightarrow> real"
  by (induction returns) simp_all

lemma identical_rd:
  fixes rd :: "real \<Rightarrow> real"
  assumes z: "rd 0 = 0" and same: "\<forall>r\<in>set returns. r = c"
    and mean: "returns_mean_rd rd returns = c"
  shows "returns_std_rd rd returns = 1"
    and "normReturns_rd rd returns = replicate (length returns) 0"
proof -
  show s: "returns_std_rd rd returns = 1"
    using z by (simp add: returns_std_rd_def Let_def mean sum_squares_identical [where rd = rd, OF z same])
  have "map (\<lambda>r. rd (rd (r - c) / 1)) returns = map (\<lambda>r. 0) returns"
    using same z by (intro map_cong) simp_all
  then show "normReturns_rd rd returns = replicate (length returns) 0"
    by (simp add: normReturns_rd_def Let_def mean s map_replicate_const)
qed

lemma identical_mean:
  assumes "returns \<noteq> []" and "\<forall>r\<in>set returns. r = c"
  shows "returns_mean returns = c"
proof -
  have "returns = replicate (length returns) c"
    using assms(2) by (simp add: replicate_length_same)
  then have "sum_list returns = real (length returns) * c"
    by (metis sum_list_replicate)
  then show ?thesis
    using assms(1) by (simp add: returns_mean_eq)
qed

lemma returns_mean_rd_exact: "returns_mean_rd (\<lambda>v. v) returns = returns_mean returns"
  by (simp add: returns_mean_rd_def returns_mean_def)

lemma returns_std_rd_exact: "returns_std_rd (\<lambda>v. v) returns = returns_std returns"
  by (simp add: returns_std_rd_def returns_std_def returns_mean_rd_exact Let_def)

text \<open>
  C3, as the program has it.  For a non-empty list of returns, the advantages are the
  returns minus their mean, divided by \<open>sigma\<close>: the population standard deviation (the
  sum of squared deviations over \<open>N\<close>, not \<open>N - 1\<close>), and 1 where that deviation is 0,
  so that the divisor is never 0.  The same holds with every operation rounded.  When
  all returns are the same number and the computed mean is that number, the deviation is
  0, \<open>sigma\<close> is 1 and every advantage is 0; the computed mean is that number in exact
  arithmetic, and under any rounding for a trajectory of one step.
\<close>

theorem normReturns_guarded:
  assumes "returns \<noteq> []"
  shows "(let N = real (length returns);
              mean = sum_list returns / N;
              sd = sqrt ((\<Sum>r\<leftarrow>returns. (r - mean)\<^sup>2) / N);
              sigma = (if sd = 0 then 1 else sd)
          in returns_std returns = sigma \<and> sigma \<noteq> 0 \<and>
             normReturns returns = map (\<lambda>r. (r - mean) / sigma) returns) \<and>
         normReturns_rd (\<lambda>v. v) returns = normReturns returns \<and>
         returns_std_rd rd returns \<noteq> 0 \<and>
         (rd 0 = 0 \<and> (\<forall>r\<in>set returns. r = c) \<and> returns_mean_rd rd returns = c \<longrightarrow>
            returns_std_rd rd returns = 1 \<and>
            normReturns_rd rd returns = replicate (length returns) 0) \<and>
         ((\<forall>r\<in>set returns. r = c) \<longrightarrow>
            returns_mean returns = c \<and> returns_std returns = 1 \<and>
            normReturns returns = replicate (length returns) 0) \<and>
         (rd 0 = 0 \<and> rd c = c \<longrightarrow>
            returns_mean_rd rd [c] = c \<and> normReturns_rd rd [c] = [0])"
proof -
  have sd: "returns_std returns =
      (let sd = sqrt ((\<Sum>r\<leftarrow>returns. (r - returns_mean returns)\<^sup>2) / real (length returns))
       in if sd = 0 then 1 else sd)"
    using assms by (rule returns_std_eq)
  have formula: "normReturns returns =
      map (\<lambda>r. (r - returns_mean returns) / returns_std returns) returns"
    by (simp add: normReturns_def Let_def)
  have exact: "returns_mean returns = c \<and> returns_std returns = 1 \<and>
      normReturns returns = replicate (length returns) 0" if same: "\<forall>r\<in>set returns. r = c"
  proof -
    have m: "returns_mean_rd (\<lambda>v. v) returns = c"
      using identical_mean [OF assms same] by (simp add: returns_mean_rd_exact)
    from identical_rd [OF _ same m] identical_mean [OF assms same] show ?thesis
      by (simp add: returns_std_rd_exact normReturns_rd_exact)
  qed
  have one: "returns_mean_rd rd [c] = c \<and> normReturns_rd rd [c] = [0]"
    if "rd 0 = 0" "rd c = c"
  proof -
    have m: "returns_mean_rd rd [c] = c"
      using that by (simp add: returns_mean_rd_def)
    from identical_rd [OF that(1) _ m] m show ?thesis
      by simp
  qed
  have first: "(let N = real (length returns);
              mean = sum_list returns / N;
              sd = sqrt ((\<Sum>r\<leftarrow>returns. (r - mean)\<^sup>2) / N);
              sigma = (if sd = 0 then 1 else sd)
          in returns_std returns = sigma \<and> sigma \<noteq> 0 \<and>
             normReturns returns = map (\<lambda>r. (r - mean) / sigma) returns)"
    using sd formula returns_std_nonzero [of returns]
    by (simp add: Let_def returns_mean_eq)
  have rdc: "returns_std_rd rd returns = 1 \<and>
      normReturns_rd rd returns = replicate (length returns) 0"
    if "rd 0 = 0" "\<forall>r\<in>set returns. r = c" "returns_mean_rd rd returns = c"
    using identical_rd [OF that] by simp
  show ?thesis
    using first exact one rdc returns_std_rd_nonzero [of rd returns]
      normReturns_rd_exact [of returns]
    by blast
qed


subsection \<open>Rounding to doubles\<close>

lemma pow2_powr: "pow2 e = 2 powr of_int e"
  by (simp add: pow2_def powr_int)

lemma pow2_pos: "0 < pow2 e"
  by (simp add: pow2_powr)

lemma round_double_binade:
  assumes "pow2 e \<le> \<bar>v\<bar>" and "\<bar>v\<bar> < pow2 (e + 1)" and "- 1022 \<le> e"
  shows "round_double v = of_int (round_half_even (v / pow2 (e - 52))) * pow2 (e - 52)"
proof -
  have p: "0 < \<bar>v\<bar>"
    using assms(1) pow2_pos [of e] by linarith
  have "\<lfloor>log 2 \<bar>v\<bar>\<rfloor> = e"
    using assms(1,2) p by (simp add: floor_log_eq_powr_iff pow2_powr)
  then show ?thesis
    using p assms(3) by (simp add: round_double_def Let_def max_def)
qed

lemma round_half_even_int: "round_half_even (of_int k) = k"
  by (simp add: round_half_even_def)

lemma round_double_exact:
  assumes "v = of_int k * pow2 (e - 52)" and "2 ^ 52 \<le> \<bar>k\<bar>" and "\<bar>k\<bar> < 2 ^ 53"
    and "- 1022 \<le> e"
  shows "round_double v = v"
proof -
  have e: "pow2 e = 2 ^ 52 * pow2 (e - 52)" "pow2 (e + 1) = 2 ^ 53 * pow2 (e - 52)"
    by (simp_all add: pow2_powr powr_diff powr_add)
  have a: "\<bar>v\<bar> = of_int \<bar>k\<bar> * pow2 (e - 52)"
    using pow2_pos [of "e - 52"] by (simp add: assms(1) abs_mult)
  have "(2::real) ^ 52 \<le> of_int \<bar>k\<bar>" "of_int \<bar>k\<bar> < (2::real) ^ 53"
    using assms(2,3) by (metis of_int_le_iff of_int_numeral of_int_power, metis of_int_less_iff of_int_numeral of_int_power)
  then have "pow2 e \<le> \<bar>v\<bar>" "\<bar>v\<bar> < pow2 (e + 1)"
    using pow2_pos [of "e - 52"] by (simp_all add: e a)
  from round_double_binade [OF this assms(4)] show ?thesis
    using pow2_pos [of "e - 52"] by (simp add: assms(1) round_half_even_int)
qed

lemma rd_tenth: "round_double tenth = tenth"
  by (rule round_double_exact [where k = 7205759403792794 and e = "- 4"])
     (simp_all add: tenth_def pow2_def)

lemma rd_tenth_decimal: "round_double (1 / 10) = tenth"
proof -
  have "round_double (1 / 10) =
      of_int (round_half_even ((1 / 10) / pow2 (- 4 - 52))) * pow2 (- 4 - 52)"
    by (rule round_double_binade) (simp_all add: pow2_def)
  also have "\<dots> = tenth"
    by (simp add: pow2_def round_half_even_def tenth_def Let_def)
  finally show ?thesis .
qed

lemma rd_two_tenths: "round_double (tenth + tenth) = 2 * tenth"
  by (rule trans [OF round_double_exact [where k = 7205759403792794 and e = "- 3"]])
     (simp_all add: tenth_def pow2_def)

lemma rd_three_tenths: "round_double (2 * tenth + tenth) = three_tenths"
proof -
  have "round_double (2 * tenth + tenth) =
      of_int (round_half_even ((2 * tenth + tenth) / pow2 (- 2 - 52))) * pow2 (- 2 - 52)"
    by (rule round_double_binade) (simp_all add: pow2_def tenth_def)
  also have "\<dots> = three_tenths"
    by (simp add: pow2_def round_half_even_def tenth_def three_tenths_def Let_def)
  finally show ?thesis .
qed

lemma rd_mean_tenths: "round_double (three_tenths / 3) = mean_tenths"
proof -
  have "round_double (three_tenths / 3) =
      of_int (round_half_even ((three_tenths / 3) / pow2 (- 4 - 52))) * pow2 (- 4 - 52)"
    by (rule round_double_binade) (simp_all add: pow2_def three_tenths_def)
  also have "\<dots> = mean_tenths"
    by (simp add: pow2_def round_half_even_def mean_tenths_def three_tenths_def Let_def)
  finally show ?thesis .
qed

lemma rd_two: "round_double 2 = 2"
  by (rule round_double_exact [where k = "2 ^ 52" and e = 1]) (simp_all add: pow2_def)

lemma rd_four: "round_double 4 = 4"
  by (rule round_double_exact [where k = "2 ^ 52" and e = 2]) (simp_all add: pow2_def)

lemma rd_zero: "round_double 0 = 0"
  by (simp add: round_double_def)

theorem normReturns_guarded_witness:
  "[2, 2] \<noteq> ([] :: real list) \<and> round_double 0 = 0 \<and> round_double tenth = tenth \<and>
   returns_mean_rd round_double [2, 2] = 2 \<and>
   returns_std_rd round_double [2, 2] = 1 \<and>
   normReturns_rd round_double [2, 2] = [0, 0] \<and>
   returns_std [2, 2] = 1 \<and> normReturns [2, 2] = [0, 0] \<and>
   normReturns_rd round_double [tenth] = [0] \<and>
   returns_std [1, 3] = 1 \<and> normReturns [1, 3] = [- 1, 1]"
proof -
  have ne: "[2, 2] \<noteq> ([] :: real list)" "[1, 3] \<noteq> ([] :: real list)"
    by simp_all
  have same: "\<forall>r\<in>set [2, 2 :: real]. r = 2"
    by simp
  have m: "returns_mean_rd round_double [2, 2] = 2"
    by (simp add: returns_mean_rd_def rd_two rd_four)
  note a = normReturns_guarded [OF ne(1), of round_double 2, unfolded Let_def]
  note b = normReturns_guarded [OF ne(1), of round_double tenth, unfolded Let_def]
  note c = normReturns_guarded [OF ne(2), of round_double 0, unfolded Let_def]
  have "returns_std_rd round_double [2, 2] = 1" "normReturns_rd round_double [2, 2] = [0, 0]"
      "returns_std [2, 2] = 1" "normReturns [2, 2] = [0, 0]"
    using a rd_zero same m by (simp_all add: numeral_2_eq_2)
  moreover have "normReturns_rd round_double [tenth] = [0]"
    using b rd_zero rd_tenth by blast
  moreover have "returns_std [1, 3] = 1" "normReturns [1, 3] = [- 1, 1]"
    using c by simp_all
  ultimately show ?thesis
    using ne rd_zero rd_tenth m by simp
qed

lemma rd_deviation: "round_double (tenth - mean_tenths) = - (1 / 2 ^ 56)"
  by (rule trans [OF round_double_exact [where k = "- (2 ^ 52)" and e = "- 56"]])
     (simp_all add: tenth_def mean_tenths_def pow2_def)

lemma rd_square: "round_double ((- (1 / 2 ^ 56))\<^sup>2) = 1 / 2 ^ 112"
  by (rule trans [OF round_double_exact [where k = "2 ^ 52" and e = "- 112"]])
     (simp_all add: pow2_def power2_eq_square)

lemma rd_sum1: "round_double (0 + 1 / 2 ^ 112) = 1 / 2 ^ 112"
  by (rule trans [OF round_double_exact [where k = "2 ^ 52" and e = "- 112"]])
     (simp_all add: pow2_def)

lemma rd_sum2: "round_double (1 / 2 ^ 112 + 1 / 2 ^ 112) = 1 / 2 ^ 111"
  by (rule trans [OF round_double_exact [where k = "2 ^ 52" and e = "- 111"]])
     (simp_all add: pow2_def)

lemma rd_sum3: "round_double (1 / 2 ^ 111 + 1 / 2 ^ 112) = 3 / 2 ^ 112"
  by (rule trans [OF round_double_exact [where k = "3 * 2 ^ 51" and e = "- 111"]])
     (simp_all add: pow2_def)

lemma rd_variance: "round_double (3 / 2 ^ 112 / real 3) = 1 / 2 ^ 112"
  by (rule trans [OF round_double_exact [where k = "2 ^ 52" and e = "- 112"]])
     (simp_all add: pow2_def)

lemma sqrt_variance: "sqrt (1 / 2 ^ 112) = 1 / 2 ^ 56"
  by (rule real_sqrt_unique) (simp_all add: power2_eq_square)

lemma rd_sd: "round_double (1 / 2 ^ 56) = 1 / 2 ^ 56"
  by (rule round_double_exact [where k = "2 ^ 52" and e = "- 56"])
     (simp_all add: pow2_def)

lemma rd_quotient: "round_double (- (1 / 2 ^ 56) / (1 / 2 ^ 56)) = - 1"
  by (rule trans [OF round_double_exact [where k = "- (2 ^ 52)" and e = 0]])
     (simp_all add: pow2_def)

lemma rd_mean_tenths': "round_double (three_tenths / real 3) = mean_tenths"
  using rd_mean_tenths by simp

lemma tenths_mean: "returns_mean_rd round_double [tenth, tenth, tenth] = mean_tenths"
proof -
  have "foldl (\<lambda>a b. round_double (a + b)) 0 [tenth, tenth, tenth] =
      round_double (round_double (round_double (0 + tenth) + tenth) + tenth)"
    by (simp only: foldl.simps)
  also have "\<dots> = three_tenths"
    by (simp only: add_0 rd_tenth rd_two_tenths rd_three_tenths)
  finally have "foldl (\<lambda>a b. round_double (a + b)) 0 [tenth, tenth, tenth] = three_tenths" .
  moreover have "length [tenth, tenth, tenth] = 3"
    by simp
  ultimately show ?thesis
    by (simp only: returns_mean_rd_def rd_mean_tenths')
qed

lemma tenths_sum_squares:
  "foldl (\<lambda>a b. round_double (a + round_double ((round_double (b - mean_tenths))\<^sup>2))) 0
     [tenth, tenth, tenth] = 3 / 2 ^ 112"
proof -
  have "foldl (\<lambda>a b. round_double (a + round_double ((round_double (b - mean_tenths))\<^sup>2))) 0
     [tenth, tenth, tenth] =
     round_double (round_double (round_double (0 + round_double ((round_double (tenth - mean_tenths))\<^sup>2))
       + round_double ((round_double (tenth - mean_tenths))\<^sup>2))
       + round_double ((round_double (tenth - mean_tenths))\<^sup>2))"
    by (simp only: foldl.simps)
  also have "\<dots> = 3 / 2 ^ 112"
    by (simp only: rd_deviation rd_square rd_sum1 rd_sum2 rd_sum3)
  finally show ?thesis .
qed

lemma tenths_std: "returns_std_rd round_double [tenth, tenth, tenth] = 1 / 2 ^ 56"
proof -
  have l: "length [tenth, tenth, tenth] = 3" "(3::nat) \<noteq> 0"
    by simp_all
  have nz: "(1::real) / 2 ^ 56 \<noteq> 0"
    by simp
  show ?thesis
    by (simp only: returns_std_rd_def Let_def tenths_mean tenths_sum_squares l rd_variance
        sqrt_variance rd_sd nz if_False)
qed

lemma tenths_advantages:
  "normReturns_rd round_double [tenth, tenth, tenth] = [- 1, - 1, - 1]"
  by (simp only: normReturns_rd_def Let_def tenths_mean tenths_std list.map rd_deviation
      rd_quotient)

text \<open>
  C3 as claimed fails in the arithmetic of the program: for three returns equal to the
  double 0.1 the computed mean is the next double above, the deviation is one unit in
  the last place and not 0, the replacement by 1 is not taken, and all three advantages
  are -1.
\<close>

theorem normReturns_identical_counterexample:
  "round_double (1 / 10) = tenth \<and>
   returns_mean_rd round_double [tenth, tenth, tenth] = tenth + 1 / 2 ^ 56 \<and>
   returns_std_rd round_double [tenth, tenth, tenth] = 1 / 2 ^ 56 \<and>
   normReturns_rd round_double [tenth, tenth, tenth] = [- 1, - 1, - 1] \<and>
   normReturns_rd round_double [tenth, tenth, tenth] \<noteq> [0, 0, 0]"
proof -
  have m: "mean_tenths = tenth + 1 / 2 ^ 56"
    by (simp add: mean_tenths_def tenth_def)
  show ?thesis
    using rd_tenth_decimal tenths_mean tenths_std tenths_advantages m by simp
qed

subsection \<open>Array loops\<close>

lemma dims_nth: "dims r c m \<Longrightarrow> i < r \<Longrightarrow> length (m ! i) = c"
  by (auto simp add: dims_def list_all_length)

lemma dims_length: "dims r c m \<Longrightarrow> length m = r"
  by (simp add: dims_def)

lemma sub_at_add: "sub_at v i d = add_at v i (- d)"
  by (simp add: sub_at_def add_at_def)

lemma sub_at2_add: "sub_at2 m i j d = add_at2 m i j (- d)"
  by (simp add: sub_at2_def add_at2_def sub_at_add)

lemma length_add_at [simp]: "length (add_at v i d) = length v"
  by (simp add: add_at_def)

lemma add_at_nth:
  "i < length v \<Longrightarrow> add_at v i d ! k = v ! k + (if k = i then d else 0)"
  by (simp add: add_at_def nth_list_update)

lemma dims_add_at2: "dims r c m \<Longrightarrow> dims r c (add_at2 m i j d)"
  by (cases "i < length m")
     (auto simp add: dims_def add_at2_def list_all_length nth_list_update)

lemma add_at2_nth:
  "dims r c m \<Longrightarrow> i < r \<Longrightarrow> j < c \<Longrightarrow>
     add_at2 m i j d ! p ! q = m ! p ! q + (if p = i \<and> q = j then d else 0)"
  by (auto simp add: add_at2_def dims_def list_all_length nth_list_update add_at_nth)

lemma fold_sum: "fold (\<lambda>i s. s + f i) [0..<n] s0 = s0 + (\<Sum>i<n. f i)" for s0 :: real
  by (induction n) simp_all

lemma fold_pair:
  "fold (\<lambda>i (p, q). (F i p, G i q)) xs (p0, q0) = (fold F xs p0, fold G xs q0)"
  by (induction xs arbitrary: p0 q0) simp_all

lemma fold_add_at:
  "n \<le> length v \<Longrightarrow>
     length (fold (\<lambda>i v. add_at v i (f i)) [0..<n] v) = length v \<and>
     (\<forall>k. fold (\<lambda>i v. add_at v i (f i)) [0..<n] v ! k = v ! k + (if k < n then f k else 0))"
proof (induction n)
  case 0
  then show ?case by simp
next
  case (Suc n)
  then show ?case
    by (auto simp add: add_at_nth)
qed

text \<open>One column of a matrix, all rows below \<open>n\<close>.\<close>

lemma fold_add_at2_col:
  "dims r c m \<Longrightarrow> n \<le> r \<Longrightarrow> j < c \<Longrightarrow>
     dims r c (fold (\<lambda>i m. add_at2 m i j (f i)) [0..<n] m) \<and>
     (\<forall>p q. fold (\<lambda>i m. add_at2 m i j (f i)) [0..<n] m ! p ! q =
        m ! p ! q + (if p < n \<and> q = j then f p else 0))"
proof (induction n)
  case 0
  then show ?case by simp
next
  case (Suc n)
  then show ?case
    by (auto simp add: add_at2_nth dims_add_at2)
qed

text \<open>One row of a matrix, all columns below \<open>n\<close>.\<close>

lemma fold_add_at2_row:
  "dims r c m \<Longrightarrow> i < r \<Longrightarrow> n \<le> c \<Longrightarrow>
     dims r c (fold (\<lambda>j m. add_at2 m i j (f j)) [0..<n] m) \<and>
     (\<forall>p q. fold (\<lambda>j m. add_at2 m i j (f j)) [0..<n] m ! p ! q =
        m ! p ! q + (if p = i \<and> q < n then f q else 0))"
proof (induction n)
  case 0
  then show ?case by simp
next
  case (Suc n)
  then show ?case
    by (auto simp add: add_at2_nth dims_add_at2)
qed

text \<open>Column by column, and row by row.\<close>

lemma fold_add_at2_cols:
  "dims r c m \<Longrightarrow> n \<le> c \<Longrightarrow>
     dims r c (fold (\<lambda>j m. fold (\<lambda>i m. add_at2 m i j (f i j)) [0..<r] m) [0..<n] m) \<and>
     (\<forall>p q. fold (\<lambda>j m. fold (\<lambda>i m. add_at2 m i j (f i j)) [0..<r] m) [0..<n] m ! p ! q =
        m ! p ! q + (if p < r \<and> q < n then f p q else 0))"
proof (induction n)
  case 0
  then show ?case by simp
next
  case (Suc n)
  let ?m = "fold (\<lambda>j m. fold (\<lambda>i m. add_at2 m i j (f i j)) [0..<r] m) [0..<n] m"
  from Suc have d: "dims r c ?m"
    and v: "\<And>p q. ?m ! p ! q = m ! p ! q + (if p < r \<and> q < n then f p q else 0)"
    by simp_all
  from Suc.prems have "n < c" by simp
  from fold_add_at2_col [OF d order_refl this, of "\<lambda>i. f i n"] v
  show ?case
    by auto
qed

lemma fold_add_at2_rows:
  "dims r c m \<Longrightarrow> n \<le> r \<Longrightarrow>
     dims r c (fold (\<lambda>i m. fold (\<lambda>j m. add_at2 m i j (f i j)) [0..<c] m) [0..<n] m) \<and>
     (\<forall>p q. fold (\<lambda>i m. fold (\<lambda>j m. add_at2 m i j (f i j)) [0..<c] m) [0..<n] m ! p ! q =
        m ! p ! q + (if p < n \<and> q < c then f p q else 0))"
proof (induction n)
  case 0
  then show ?case by simp
next
  case (Suc n)
  let ?m = "fold (\<lambda>i m. fold (\<lambda>j m. add_at2 m i j (f i j)) [0..<c] m) [0..<n] m"
  from Suc have d: "dims r c ?m"
    and v: "\<And>p q. ?m ! p ! q = m ! p ! q + (if p < n \<and> q < c then f p q else 0)"
    by simp_all
  from Suc.prems have "n < r" by simp
  from fold_add_at2_row [OF d this order_refl, of "f n"] v
  show ?case
    by auto
qed

subsection \<open>The gradient loop\<close>

lemma shaped_dims:
  "shaped a \<longleftrightarrow>
     dims inputSize (hiddenSize a) (w1 a) \<and> length (b1 a) = hiddenSize a \<and>
     dims (hiddenSize a) outputSize (w2 a) \<and> length (b2 a) = outputSize"
  by (auto simp add: shaped_def dims_def)

lemma dLogits_nth:
  "k < outputSize \<Longrightarrow>
     [p ! 0 - (if action = 0 then 1 else 0), p ! 1 - (if action = 1 then 1 else 0)] ! k =
       p ! k - onehot action k" for action :: real
  by (cases k) (auto simp add: outputSize_def onehot_def)

lemma accumulate_spec:
  fixes a :: PolicyGradientAgent and t :: nat and g :: Gradients
  assumes g: "grad_dims (hiddenSize a) g"
  defines "g' \<equiv> accumulate a (advantages a) t g"
  shows "grad_dims (hiddenSize a) g'"
    and "h < hiddenSize a \<Longrightarrow> k < outputSize \<Longrightarrow>
           dW2 g' ! h ! k = dW2 g ! h ! k + episodeHiddens a ! t ! h * output_error a t k"
    and "k < outputSize \<Longrightarrow> db2 g' ! k = db2 g ! k + output_error a t k"
    and "i < inputSize \<Longrightarrow> h < hiddenSize a \<Longrightarrow>
           dW1 g' ! i ! h = dW1 g ! i ! h + episodeStates a ! t ! i * hidden_error a t h"
    and "h < hiddenSize a \<Longrightarrow> db1 g' ! h = db1 g ! h + hidden_error a t h"
proof -
  let ?H = "hiddenSize a"
  let ?adv = "advantages a ! t"
  let ?dL = "[episodeProbs a ! t ! 0 - (if episodeActions a ! t = 0 then 1 else 0),
              episodeProbs a ! t ! 1 - (if episodeActions a ! t = 1 then 1 else 0)]"
  let ?hid = "episodeHiddens a ! t"
  let ?inp = "episodeStates a ! t"
  let ?dH = "map (\<lambda>h. fold (\<lambda>oi sum. sum + ?dL ! oi * ?adv * w2 a ! h ! oi) [0..<outputSize] 0
                     * (1 - ?hid ! h * ?hid ! h)) [0..<?H]"
  let ?W2 = "fold (\<lambda>oi m. fold (\<lambda>h m. add_at2 m h oi (?hid ! h * (?dL ! oi * ?adv))) [0..<?H] m)
               [0..<outputSize] (dW2 g)"
  let ?b2 = "fold (\<lambda>oi v. add_at v oi (?dL ! oi * ?adv)) [0..<outputSize] (db2 g)"
  let ?W1 = "fold (\<lambda>h m. fold (\<lambda>i m. add_at2 m i h (?inp ! i * ?dH ! h)) [0..<inputSize] m)
               [0..<?H] (dW1 g)"
  let ?b1 = "fold (\<lambda>h v. add_at v h (?dH ! h)) [0..<?H] (db1 g)"
  have g'_eq: "g' = \<lparr>dW2 = ?W2, db2 = ?b2, dW1 = ?W1, db1 = ?b1\<rparr>"
    unfolding g'_def accumulate_def Let_def fold_pair by simp
  have err: "?dL ! k * ?adv = output_error a t k" if "k < outputSize" for k
    using that by (simp only: dLogits_nth output_error_def)
  have dH: "?dH ! h = hidden_error a t h" if "h < ?H" for h
  proof -
    have "(\<Sum>oi<outputSize. ?dL ! oi * ?adv * w2 a ! h ! oi) =
          (\<Sum>k<outputSize. output_error a t k * w2 a ! h ! k)"
      by (rule sum.cong) (simp_all only: lessThan_iff err)
    then show ?thesis
      using that by (simp add: fold_sum hidden_error_def power2_eq_square)
  qed
  from g have d2: "dims ?H outputSize (dW2 g)" and l2: "length (db2 g) = outputSize"
    and d1: "dims inputSize ?H (dW1 g)" and l1: "length (db1 g) = ?H"
    by (simp_all add: grad_dims_def)
  note W2 = fold_add_at2_cols [OF d2 order_refl, of "\<lambda>h oi. ?hid ! h * (?dL ! oi * ?adv)"]
  note W1 = fold_add_at2_cols [OF d1 order_refl, of "\<lambda>i h. ?inp ! i * ?dH ! h"]
  have b2: "length ?b2 = outputSize \<and>
      (\<forall>k. ?b2 ! k = db2 g ! k + (if k < outputSize then ?dL ! k * ?adv else 0))"
    using fold_add_at [of outputSize "db2 g" "\<lambda>oi. ?dL ! oi * ?adv"] l2 by simp
  have b1: "length ?b1 = ?H \<and>
      (\<forall>k. ?b1 ! k = db1 g ! k + (if k < ?H then ?dH ! k else 0))"
    using fold_add_at [of ?H "db1 g" "\<lambda>h. ?dH ! h"] l1 by simp
  show "grad_dims ?H g'"
    using W2 W1 b2 b1 by (simp add: g'_eq grad_dims_def)
  show "dW2 g' ! h ! k = dW2 g ! h ! k + episodeHiddens a ! t ! h * output_error a t k"
    if "h < ?H" "k < outputSize"
    using that W2 err [of k] by (simp add: g'_eq)
  show "db2 g' ! k = db2 g ! k + output_error a t k" if "k < outputSize"
    using that b2 err [of k] by (simp add: g'_eq)
  show "dW1 g' ! i ! h = dW1 g ! i ! h + episodeStates a ! t ! i * hidden_error a t h"
    if "i < inputSize" "h < ?H"
    using that W1 dH [of h] by (simp add: g'_eq)
  show "db1 g' ! h = db1 g ! h + hidden_error a t h" if "h < ?H"
    using that b1 dH [of h] by (simp add: g'_eq)
qed

lemma accumulate_all:
  fixes a :: PolicyGradientAgent and g0 :: Gradients and n :: nat
  assumes g0: "grad_dims (hiddenSize a) g0"
  defines "g \<equiv> fold (accumulate a (advantages a)) [0..<n] g0"
  shows "grad_dims (hiddenSize a) g \<and>
    (\<forall>h<hiddenSize a. \<forall>k<outputSize. dW2 g ! h ! k =
        dW2 g0 ! h ! k + (\<Sum>t<n. episodeHiddens a ! t ! h * output_error a t k)) \<and>
    (\<forall>k<outputSize. db2 g ! k = db2 g0 ! k + (\<Sum>t<n. output_error a t k)) \<and>
    (\<forall>i<inputSize. \<forall>h<hiddenSize a. dW1 g ! i ! h =
        dW1 g0 ! i ! h + (\<Sum>t<n. episodeStates a ! t ! i * hidden_error a t h)) \<and>
    (\<forall>h<hiddenSize a. db1 g ! h = db1 g0 ! h + (\<Sum>t<n. hidden_error a t h))"
  unfolding g_def
proof (induction n)
  case 0
  show ?case using g0 by simp
next
  case (Suc n)
  let ?g = "fold (accumulate a (advantages a)) [0..<n] g0"
  from Suc have d: "grad_dims (hiddenSize a) ?g"
    by simp
  note acc = accumulate_spec [OF d, where t = n]
  show ?case
    using Suc acc by (simp add: algebra_simps)
qed

lemma zero_gradients_dims: "shaped a \<Longrightarrow> grad_dims (hiddenSize a) (zero_gradients a)"
  by (simp add: shaped_dims grad_dims_def zero_gradients_def dims_def list_all_length)

lemma zero_gradients_nth:
  assumes "shaped a"
  shows "h < hiddenSize a \<Longrightarrow> k < outputSize \<Longrightarrow> dW2 (zero_gradients a) ! h ! k = 0"
    and "k < outputSize \<Longrightarrow> db2 (zero_gradients a) ! k = 0"
    and "i < inputSize \<Longrightarrow> h < hiddenSize a \<Longrightarrow> dW1 (zero_gradients a) ! i ! h = 0"
    and "h < hiddenSize a \<Longrightarrow> db1 (zero_gradients a) ! h = 0"
  using assms by (simp_all add: shaped_dims zero_gradients_def dims_def list_all_length)

lemma apply_gradients_spec:
  fixes a :: PolicyGradientAgent and g :: Gradients
  assumes s: "shaped a"
  defines "a' \<equiv> apply_gradients a g"
  shows "shaped a'"
    and "i < inputSize \<Longrightarrow> h < hiddenSize a \<Longrightarrow>
           w1 a' ! i ! h = w1 a ! i ! h - learningRate a * dW1 g ! i ! h"
    and "h < hiddenSize a \<Longrightarrow> b1 a' ! h = b1 a ! h - learningRate a * db1 g ! h"
    and "h < hiddenSize a \<Longrightarrow> k < outputSize \<Longrightarrow>
           w2 a' ! h ! k = w2 a ! h ! k - learningRate a * dW2 g ! h ! k"
    and "k < outputSize \<Longrightarrow> b2 a' ! k = b2 a ! k - learningRate a * db2 g ! k"
proof -
  let ?H = "hiddenSize a"
  from s have d1: "dims inputSize ?H (w1 a)" and l1: "length (b1 a) = ?H"
    and d2: "dims ?H outputSize (w2 a)" and l2: "length (b2 a) = outputSize"
    by (simp_all add: shaped_dims)
  note W1 = fold_add_at2_rows [OF d1 order_refl, of "\<lambda>i j. - (learningRate a * dW1 g ! i ! j)"]
  note W2 = fold_add_at2_rows [OF d2 order_refl, of "\<lambda>i j. - (learningRate a * dW2 g ! i ! j)"]
  have B1: "length (fold (\<lambda>i v. add_at v i (- (learningRate a * db1 g ! i))) [0..<?H] (b1 a)) = ?H \<and>
      (\<forall>k. fold (\<lambda>i v. add_at v i (- (learningRate a * db1 g ! i))) [0..<?H] (b1 a) ! k =
        b1 a ! k + (if k < ?H then - (learningRate a * db1 g ! k) else 0))"
    using fold_add_at [of ?H "b1 a" "\<lambda>i. - (learningRate a * db1 g ! i)"] l1 by simp
  have B2: "length (fold (\<lambda>i v. add_at v i (- (learningRate a * db2 g ! i))) [0..<outputSize] (b2 a)) = outputSize \<and>
      (\<forall>k. fold (\<lambda>i v. add_at v i (- (learningRate a * db2 g ! i))) [0..<outputSize] (b2 a) ! k =
        b2 a ! k + (if k < outputSize then - (learningRate a * db2 g ! k) else 0))"
    using fold_add_at [of outputSize "b2 a" "\<lambda>i. - (learningRate a * db2 g ! i)"] l2 by simp
  have hs: "hiddenSize a' = ?H"
    by (simp add: a'_def apply_gradients_def Let_def)
  show "shaped a'"
    using W1 W2 B1 B2
    by (simp add: shaped_dims hs) (simp add: a'_def apply_gradients_def Let_def sub_at_add sub_at2_add)
  show "w1 a' ! i ! h = w1 a ! i ! h - learningRate a * dW1 g ! i ! h"
    if "i < inputSize" "h < ?H"
    using that W1 by (simp add: a'_def apply_gradients_def Let_def sub_at2_add)
  show "b1 a' ! h = b1 a ! h - learningRate a * db1 g ! h" if "h < ?H"
    using that B1 by (simp add: a'_def apply_gradients_def Let_def sub_at_add)
  show "w2 a' ! h ! k = w2 a ! h ! k - learningRate a * dW2 g ! h ! k"
    if "h < ?H" "k < outputSize"
    using that W2 by (simp add: a'_def apply_gradients_def Let_def sub_at2_add)
  show "b2 a' ! k = b2 a ! k - learningRate a * db2 g ! k" if "k < outputSize"
    using that B2 by (simp add: a'_def apply_gradients_def Let_def sub_at_add)
qed

lemma apply_gradients_frame:
  "hiddenSize (apply_gradients a g) = hiddenSize a"
  "learningRate (apply_gradients a g) = learningRate a"
  "gamma (apply_gradients a g) = gamma a"
  "episodeStates (apply_gradients a g) = episodeStates a"
  "episodeHiddens (apply_gradients a g) = episodeHiddens a"
  "episodeProbs (apply_gradients a g) = episodeProbs a"
  "episodeActions (apply_gradients a g) = episodeActions a"
  "episodeRewards (apply_gradients a g) = episodeRewards a"
  by (simp_all add: apply_gradients_def Let_def)

lemma resetMemory_frame:
  "hiddenSize (resetMemory a) = hiddenSize a"
  "learningRate (resetMemory a) = learningRate a"
  "gamma (resetMemory a) = gamma a"
  "w1 (resetMemory a) = w1 a" "b1 (resetMemory a) = b1 a"
  "w2 (resetMemory a) = w2 a" "b2 (resetMemory a) = b2 a"
  "episodeStates (resetMemory a) = []"
  "episodeHiddens (resetMemory a) = []"
  "episodeProbs (resetMemory a) = []"
  "episodeActions (resetMemory a) = []"
  "episodeRewards (resetMemory a) = []"
  by (simp_all add: resetMemory_def)

lemma shaped_resetMemory: "shaped (resetMemory a) = shaped a"
  by (simp add: shaped_def resetMemory_frame)

lemma train_eq:
  "shaped a \<Longrightarrow> buffer_shaped a \<Longrightarrow>
     train a = Inr (resetMemory (apply_gradients a
       (fold (accumulate a (advantages a)) [0..<length (episodeRewards a)] (zero_gradients a))))"
  by (simp add: train_def Let_def advantages_def)

text \<open>
  C1.  For an agent of the constructor's shapes with a non-empty buffer of snapshots of
  \<^verbatim>\<open>predict\<close>'s shapes, \<^const>\<open>train\<close> returns an agent in which every entry of
  \<^verbatim>\<open>w1\<close>, \<^verbatim>\<open>b1\<close>, \<^verbatim>\<open>w2\<close> and \<^verbatim>\<open>b2\<close> is the old entry minus the learning rate
  times the gradient of the specification: the output error
  \<open>(p[t] - onehot(action[t])) * advantage[t]\<close> summed over the steps for \<^verbatim>\<open>b2\<close>, its
  product with the stored hidden activation for \<^verbatim>\<open>w2\<close>, the error carried back through
  the old \<^verbatim>\<open>w2\<close> and multiplied by \<open>1 - h\<^sup>2\<close> for \<^verbatim>\<open>b1\<close>, and its product with the
  stored input for \<^verbatim>\<open>w1\<close>.  Shapes, hidden width, learning rate and discount stay.
\<close>

theorem train_reinforce:
  assumes s: "shaped a" and b: "buffer_shaped a" and ne: "episodeRewards a \<noteq> []"
  shows "\<exists>a'. train a = Inr a' \<and> shaped a' \<and>
    hiddenSize a' = hiddenSize a \<and> learningRate a' = learningRate a \<and> gamma a' = gamma a \<and>
    (\<forall>i<inputSize. \<forall>h<hiddenSize a.
        w1 a' ! i ! h = w1 a ! i ! h - learningRate a * grad_W1 a i h) \<and>
    (\<forall>h<hiddenSize a. b1 a' ! h = b1 a ! h - learningRate a * grad_b1 a h) \<and>
    (\<forall>h<hiddenSize a. \<forall>k<outputSize.
        w2 a' ! h ! k = w2 a ! h ! k - learningRate a * grad_W2 a h k) \<and>
    (\<forall>k<outputSize. b2 a' ! k = b2 a ! k - learningRate a * grad_b2 a k)"
proof -
  let ?g = "fold (accumulate a (advantages a)) [0..<length (episodeRewards a)] (zero_gradients a)"
  let ?a = "resetMemory (apply_gradients a ?g)"
  note z = zero_gradients_nth [OF s]
  note g = accumulate_all [OF zero_gradients_dims [OF s], where n = "length (episodeRewards a)"]
  note ap = apply_gradients_spec [OF s, where g = ?g]
  have "train a = Inr ?a"
    using s b by (rule train_eq)
  moreover have "shaped ?a"
    using ap(1) by (simp add: shaped_resetMemory)
  moreover have "hiddenSize ?a = hiddenSize a" "learningRate ?a = learningRate a"
      "gamma ?a = gamma a"
    by (simp_all add: resetMemory_frame apply_gradients_frame)
  moreover have "w1 ?a ! i ! h = w1 a ! i ! h - learningRate a * grad_W1 a i h"
    if "i < inputSize" "h < hiddenSize a" for i h
    using that ap(2) g z(3) by (simp add: resetMemory_frame grad_W1_def)
  moreover have "b1 ?a ! h = b1 a ! h - learningRate a * grad_b1 a h"
    if "h < hiddenSize a" for h
    using that ap(3) g z(4) by (simp add: resetMemory_frame grad_b1_def)
  moreover have "w2 ?a ! h ! k = w2 a ! h ! k - learningRate a * grad_W2 a h k"
    if "h < hiddenSize a" "k < outputSize" for h k
    using that ap(4) g z(1) by (simp add: resetMemory_frame grad_W2_def)
  moreover have "b2 ?a ! k = b2 a ! k - learningRate a * grad_b2 a k"
    if "k < outputSize" for k
    using that ap(5) g z(2) by (simp add: resetMemory_frame grad_b2_def)
  ultimately show ?thesis
    by blast
qed

lemma example_agent_shaped: "shaped example_agent" "buffer_shaped example_agent"
  by (simp_all add: example_agent_def shaped_def buffer_shaped_def aligned_def
      inputSize_def outputSize_def)

lemma example_agent_advantages: "advantages example_agent = [1, - 1]"
  by (simp add: advantages_def example_agent_def discounted_returns_eq normReturns_def
      returns_mean_def returns_std_def Let_def)

lemma lessThan_2: "{..<(2::nat)} = {0, Suc 0}"
  by auto

lemma example_agent_fields:
  "hiddenSize example_agent = Suc 0" "learningRate example_agent = 1 / 2"
  "w1 example_agent = [[1], [2], [3], [4]]" "b1 example_agent = [0]"
  "w2 example_agent = [[1, - 1]]" "b2 example_agent = [0, 0]"
  "episodeStates example_agent = [[1, 0, 0, 0], [0, 1, 0, 0]]"
  "episodeHiddens example_agent = [[1 / 2], [1 / 4]]"
  "episodeProbs example_agent = [[1 / 2, 1 / 2], [1 / 4, 3 / 4]]"
  "episodeActions example_agent = [0, 1]"
  "episodeRewards example_agent = [2, 1]"
  by (simp_all add: example_agent_def)

lemma example_agent_errors:
  "output_error example_agent 0 0 = - (1 / 2)"
  "output_error example_agent 0 (Suc 0) = 1 / 2"
  "output_error example_agent (Suc 0) 0 = - (1 / 4)"
  "output_error example_agent (Suc 0) (Suc 0) = 1 / 4"
  by (simp_all add: output_error_def example_agent_advantages onehot_def example_agent_fields)

lemma example_agent_hidden_errors:
  "hidden_error example_agent 0 0 = - (3 / 4)"
  "hidden_error example_agent (Suc 0) 0 = - (15 / 32)"
  by (simp_all add: hidden_error_def outputSize_def lessThan_2 example_agent_errors
      example_agent_fields power2_eq_square)

lemma example_agent_gradients:
  "grad_b2 example_agent 0 = - (3 / 4)" "grad_b2 example_agent (Suc 0) = 3 / 4"
  "grad_W2 example_agent 0 0 = - (5 / 16)" "grad_W2 example_agent 0 (Suc 0) = 5 / 16"
  "grad_b1 example_agent 0 = - (39 / 32)"
  "grad_W1 example_agent 0 0 = - (3 / 4)" "grad_W1 example_agent (Suc 0) 0 = - (15 / 32)"
  "grad_W1 example_agent 2 0 = 0" "grad_W1 example_agent 3 0 = 0"
  by (simp_all add: grad_b2_def grad_W2_def grad_b1_def grad_W1_def lessThan_2
      example_agent_errors example_agent_hidden_errors example_agent_fields)

theorem train_reinforce_witness:
  "shaped example_agent \<and> buffer_shaped example_agent \<and> episodeRewards example_agent \<noteq> [] \<and>
   (\<exists>a'. train example_agent = Inr a' \<and>
      b2 a' ! 0 = 3 / 8 \<and> b2 a' ! 1 = - (3 / 8) \<and>
      w2 a' ! 0 ! 0 = 37 / 32 \<and> w2 a' ! 0 ! 1 = - (37 / 32) \<and>
      b1 a' ! 0 = 39 / 64 \<and>
      w1 a' ! 0 ! 0 = 11 / 8 \<and> w1 a' ! 1 ! 0 = 143 / 64 \<and> w1 a' ! 2 ! 0 = 3 \<and> w1 a' ! 3 ! 0 = 4)"
proof -
  note f = example_agent_fields and g = example_agent_gradients
  have ne: "episodeRewards example_agent \<noteq> []"
    by (simp add: f)
  from train_reinforce [OF example_agent_shaped ne]
  obtain a' where t: "train example_agent = Inr a'"
    and w1: "\<And>i h. i < inputSize \<Longrightarrow> h < hiddenSize example_agent \<Longrightarrow>
        w1 a' ! i ! h = w1 example_agent ! i ! h - learningRate example_agent * grad_W1 example_agent i h"
    and b1: "\<And>h. h < hiddenSize example_agent \<Longrightarrow>
        b1 a' ! h = b1 example_agent ! h - learningRate example_agent * grad_b1 example_agent h"
    and w2: "\<And>h k. h < hiddenSize example_agent \<Longrightarrow> k < outputSize \<Longrightarrow>
        w2 a' ! h ! k = w2 example_agent ! h ! k - learningRate example_agent * grad_W2 example_agent h k"
    and b2: "\<And>k. k < outputSize \<Longrightarrow>
        b2 a' ! k = b2 example_agent ! k - learningRate example_agent * grad_b2 example_agent k"
    by blast
  have "b2 a' ! 0 = 3 / 8" "b2 a' ! 1 = - (3 / 8)"
    using b2 [of 0] b2 [of "Suc 0"] by (simp_all add: outputSize_def f g)
  moreover have "w2 a' ! 0 ! 0 = 37 / 32" "w2 a' ! 0 ! 1 = - (37 / 32)"
    using w2 [of 0 0] w2 [of 0 "Suc 0"] by (simp_all add: outputSize_def f g)
  moreover have "b1 a' ! 0 = 39 / 64"
    using b1 [of 0] by (simp add: f g)
  moreover have "w1 a' ! 0 ! 0 = 11 / 8" "w1 a' ! 1 ! 0 = 143 / 64" "w1 a' ! 2 ! 0 = 3"
      "w1 a' ! 3 ! 0 = 4"
    using w1 [of 0 0] w1 [of "Suc 0" 0] w1 [of 2 0] w1 [of 3 0]
    by (simp_all add: inputSize_def f g)
  ultimately show ?thesis
    using example_agent_shaped ne t by blast
qed

subsection \<open>The empty buffer\<close>

lemma dims_eqI:
  assumes "dims r c m" "dims r c m'" "\<And>i j. i < r \<Longrightarrow> j < c \<Longrightarrow> m ! i ! j = m' ! i ! j"
  shows "m = m'"
proof (rule nth_equalityI)
  show "length m = length m'"
    using assms(1,2) by (simp add: dims_def)
next
  fix i assume i: "i < length m"
  then have ir: "i < r" using assms(1) by (simp add: dims_def)
  show "m ! i = m' ! i"
  proof (rule nth_equalityI)
    show "length (m ! i) = length (m' ! i)"
      using ir assms(1,2) by (simp add: dims_nth)
  next
    fix j assume "j < length (m ! i)"
    then have "j < c" using ir assms(1) by (simp add: dims_nth)
    then show "m ! i ! j = m' ! i ! j"
      using ir assms(3) by simp
  qed
qed

lemma apply_zero_gradients:
  assumes s: "shaped a"
  shows "apply_gradients a (zero_gradients a) = a"
proof -
  let ?a = "apply_gradients a (zero_gradients a)"
  note ap = apply_gradients_spec [OF s, where g = "zero_gradients a"]
  note z = zero_gradients_nth [OF s]
  from ap(1) have s': "dims inputSize (hiddenSize a) (w1 ?a)" "length (b1 ?a) = hiddenSize a"
      "dims (hiddenSize a) outputSize (w2 ?a)" "length (b2 ?a) = outputSize"
    by (simp_all add: shaped_dims apply_gradients_frame)
  from s have s0: "dims inputSize (hiddenSize a) (w1 a)" "length (b1 a) = hiddenSize a"
      "dims (hiddenSize a) outputSize (w2 a)" "length (b2 a) = outputSize"
    by (simp_all add: shaped_dims)
  have "w1 ?a = w1 a"
    using s'(1) s0(1) by (rule dims_eqI) (simp add: ap(2) z(3))
  moreover have "w2 ?a = w2 a"
    using s'(3) s0(3) by (rule dims_eqI) (simp add: ap(4) z(1))
  moreover have "b1 ?a = b1 a"
    by (rule nth_equalityI) (simp_all add: s' s0 ap(3) z(4))
  moreover have "b2 ?a = b2 a"
    by (rule nth_equalityI) (simp_all add: s' s0 ap(5) z(2))
  ultimately show ?thesis
    by (simp add: apply_gradients_frame)
qed

lemma buffer_empty_shaped: "buffer_empty a \<Longrightarrow> buffer_shaped a"
  by (simp add: buffer_empty_def buffer_shaped_def aligned_def)

lemma resetMemory_empty: "buffer_empty a \<Longrightarrow> resetMemory a = a"
  by (simp add: buffer_empty_def resetMemory_def)

lemma aligned_empty: "aligned a \<Longrightarrow> episodeRewards a = [] \<Longrightarrow> buffer_empty a"
  by (simp add: aligned_def buffer_empty_def)

text \<open>
  C9.  On an agent of the constructor's shapes whose buffer is empty, \<^const>\<open>train\<close>
  returns the agent as it was: the four parameter arrays are unchanged and the buffer is
  still empty.  (The program computes a NaN mean from 0/0 here; the \<^verbatim>\<open>|| 1\<close> absorbs
  it and the map that would use it runs over no element.)
\<close>

theorem train_empty_noop:
  assumes "shaped a" and "aligned a" and "episodeRewards a = []"
  shows "\<exists>a'. train a = Inr a' \<and>
           w1 a' = w1 a \<and> b1 a' = b1 a \<and> w2 a' = w2 a \<and> b2 a' = b2 a \<and>
           buffer_empty a' \<and> a' = a"
proof -
  have e: "buffer_empty a"
    using assms(2,3) by (rule aligned_empty)
  have "train a = Inr (resetMemory (apply_gradients a (zero_gradients a)))"
    using assms(1) buffer_empty_shaped [OF e] assms(3) by (simp add: train_eq)
  then have "train a = Inr a"
    using assms(1) e by (simp add: apply_zero_gradients resetMemory_empty)
  then show ?thesis
    using e by simp
qed

theorem train_empty_noop_witness:
  "shaped (resetMemory example_agent) \<and> aligned (resetMemory example_agent) \<and>
   episodeRewards (resetMemory example_agent) = [] \<and>
   train (resetMemory example_agent) = Inr (resetMemory example_agent) \<and>
   w1 (resetMemory example_agent) = [[1], [2], [3], [4]]"
proof -
  have s: "shaped (resetMemory example_agent)"
    by (simp add: shaped_resetMemory example_agent_shaped)
  have a: "aligned (resetMemory example_agent)"
    and r: "episodeRewards (resetMemory example_agent) = []"
    by (simp_all add: aligned_def resetMemory_frame)
  show ?thesis
    using train_empty_noop [OF s a r] s a r
    by (auto simp add: resetMemory_frame example_agent_fields)
qed

subsection \<open>The episode buffer\<close>

lemma storeStep_lengths:
  "length (episodeStates (storeStep a acts act rew)) = Suc (length (episodeStates a))"
  "length (episodeHiddens (storeStep a acts act rew)) = Suc (length (episodeHiddens a))"
  "length (episodeProbs (storeStep a acts act rew)) = Suc (length (episodeProbs a))"
  "length (episodeActions (storeStep a acts act rew)) = Suc (length (episodeActions a))"
  "length (episodeRewards (storeStep a acts act rew)) = Suc (length (episodeRewards a))"
  by (simp_all add: storeStep_def)

lemma storeStep_aligned: "aligned a \<Longrightarrow> aligned (storeStep a acts act rew)"
  by (simp add: aligned_def storeStep_lengths)

lemma storeStep_shaped: "shaped (storeStep a acts act rew) = shaped a"
  by (simp add: shaped_def storeStep_def)

lemma storeStep_hiddenSize: "hiddenSize (storeStep a acts act rew) = hiddenSize a"
  by (simp add: storeStep_def)

lemma storeStep_buffer_shaped:
  "buffer_shaped a \<Longrightarrow> shaped_activations (hiddenSize a) acts \<Longrightarrow>
     buffer_shaped (storeStep a acts act rew)"
  by (simp add: buffer_shaped_def storeStep_aligned storeStep_hiddenSize shaped_activations_def)
     (simp add: storeStep_def)

lemma train_buffer_empty: "train a = Inr a' \<Longrightarrow> buffer_empty a'"
  by (auto simp add: train_def Let_def buffer_empty_def resetMemory_frame split: if_splits)

lemma train_total:
  "shaped a \<Longrightarrow> buffer_shaped a \<Longrightarrow>
     \<exists>a'. train a = Inr a' \<and> shaped a' \<and> hiddenSize a' = hiddenSize a"
  by (simp add: train_eq shaped_resetMemory apply_gradients_spec(1) resetMemory_frame
      apply_gradients_frame)

lemma buffer_empty_aligned: "buffer_empty a \<Longrightarrow> aligned a"
  by (simp add: buffer_empty_def aligned_def)

lemma run_calls_aligned:
  "aligned a \<Longrightarrow> run_calls a calls = Inr a' \<Longrightarrow>
     aligned a' \<and> (calls \<noteq> [] \<and> last calls = Train \<longrightarrow> buffer_empty a')"
proof (induction a calls rule: run_calls.induct)
  case (1 a)
  then show ?case by simp
next
  case (2 a activations action rew calls)
  then show ?case
    by (cases calls) (auto simp add: storeStep_aligned)
next
  case (3 a calls)
  from "3.prems"(2) obtain b where b: "train a = Inr b" and r: "run_calls b calls = Inr a'"
    by (auto split: sum.splits)
  have e: "buffer_empty b"
    using b by (rule train_buffer_empty)
  show ?case
  proof (cases calls)
    case Nil
    then show ?thesis using r e by (simp add: buffer_empty_aligned)
  next
    case (Cons c cs)
    then show ?thesis
      using "3.IH" [OF b buffer_empty_aligned [OF e] r] by simp
  qed
qed

lemma run_calls_total:
  "shaped a \<Longrightarrow> buffer_shaped a \<Longrightarrow> \<forall>c\<in>set calls. call_shaped (hiddenSize a) c \<Longrightarrow>
     \<exists>a'. run_calls a calls = Inr a'"
proof (induction a calls rule: run_calls.induct)
  case (1 a)
  then show ?case by simp
next
  case (2 a activations action rew calls)
  then show ?case
    by (simp add: storeStep_shaped storeStep_buffer_shaped storeStep_hiddenSize)
next
  case (3 a calls)
  from train_total [OF "3.prems"(1,2)]
  obtain b where b: "train a = Inr b" and s: "shaped b" and h: "hiddenSize b = hiddenSize a"
    by blast
  have "buffer_shaped b"
    using b by (simp add: train_buffer_empty buffer_empty_shaped)
  with "3.IH" [OF b s] "3.prems"(3) h b show ?case
    by simp
qed

text \<open>
  C7.  \<^const>\<open>storeStep\<close> makes each of the five episode arrays one longer; every agent
  \<^const>\<open>train\<close> returns has all five empty; so from an agent with five arrays of one
  length, every sequence of calls that runs to its end leaves five arrays of one length,
  and empty ones when its last call is \<^const>\<open>Train\<close>.  A sequence runs to its end
  whenever the stored snapshots have the shapes \<^verbatim>\<open>predict\<close> produces.
\<close>

theorem buffer_alignment:
  "(let a' = storeStep a acts act rew
    in length (episodeStates a') = Suc (length (episodeStates a)) \<and>
       length (episodeHiddens a') = Suc (length (episodeHiddens a)) \<and>
       length (episodeProbs a') = Suc (length (episodeProbs a)) \<and>
       length (episodeActions a') = Suc (length (episodeActions a)) \<and>
       length (episodeRewards a') = Suc (length (episodeRewards a))) \<and>
   (\<forall>a'. train a = Inr a' \<longrightarrow> buffer_empty a') \<and>
   (aligned a \<longrightarrow>
      (\<forall>a'. run_calls a calls = Inr a' \<longrightarrow>
         aligned a' \<and> (calls \<noteq> [] \<and> last calls = Train \<longrightarrow> buffer_empty a'))) \<and>
   (shaped a \<and> buffer_shaped a \<and> (\<forall>c\<in>set calls. call_shaped (hiddenSize a) c) \<longrightarrow>
      (\<exists>a'. run_calls a calls = Inr a'))"
  using run_calls_aligned [of a calls] run_calls_total [of a calls]
  by (simp add: Let_def storeStep_lengths train_buffer_empty)

theorem buffer_alignment_witness:
  "aligned example_agent \<and> shaped example_agent \<and> buffer_shaped example_agent \<and>
   example_calls \<noteq> [] \<and> last example_calls = Train \<and>
   (\<exists>a'. run_calls example_agent example_calls = Inr a' \<and> aligned a' \<and> buffer_empty a') \<and>
   length (episodeRewards (storeStep example_agent
     \<lparr>input = [0, 0, 0, 0], hidden = [0], output = [1 / 2, 1 / 2]\<rparr> 1 1)) = 3"
proof -
  have al: "aligned example_agent"
    using example_agent_shaped(2) by (simp add: buffer_shaped_def)
  have cs: "\<forall>c\<in>set example_calls. call_shaped (hiddenSize example_agent) c"
    by (simp add: example_calls_def example_agent_fields shaped_activations_def
        inputSize_def outputSize_def)
  have l: "example_calls \<noteq> []" "last example_calls = Train"
    by (simp_all add: example_calls_def)
  have n: "length (episodeRewards example_agent) = 2"
    by (simp add: example_agent_fields)
  note th = buffer_alignment [of example_agent _ _ _ example_calls, unfolded Let_def]
  from th example_agent_shaped cs obtain a' where r: "run_calls example_agent example_calls = Inr a'"
    by blast
  with th al l have "aligned a' \<and> buffer_empty a'"
    by blast
  moreover have "length (episodeRewards (storeStep example_agent
     \<lparr>input = [0, 0, 0, 0], hidden = [0], output = [1 / 2, 1 / 2]\<rparr> 1 1)) = 3"
    using buffer_alignment [of example_agent
        "\<lparr>input = [0, 0, 0, 0], hidden = [0], output = [1 / 2, 1 / 2]\<rparr>" 1 1 "[]"] n
    by (simp add: Let_def)
  ultimately show ?thesis
    using al example_agent_shaped l r by blast
qed

section \<open>Properties of the forward pass\<close>















section \<open>Properties of \<^verbatim>\<open>getWeights\<close>\<close>

lemma those_map_Some: "those (map Some xs) = Some xs"
  by (induction xs) simp_all

lemma those_eq_Some: "those xs = Some ys \<Longrightarrow> xs = map Some ys"
  by (induction xs arbitrary: ys) (auto split: option.splits)

lemma read_numbers_write_same:
  "read_numbers st r = Some v \<Longrightarrow> i < length v \<Longrightarrow>
     \<exists>st'. write_number st r i c = Some st' \<and> st' = st(r \<mapsto> Numbers (v[i := c])) \<and>
           read_numbers st' r = Some (v[i := c])"
  by (auto simp add: read_numbers_def write_number_def split: option.splits js_array.splits)

lemma read_matrix_rows:
  "read_matrix st r = Some m \<Longrightarrow>
     \<exists>rs. st r = Some (Rows rs) \<and> length rs = length m \<and>
          (\<forall>k<length rs. read_numbers st (rs ! k) = Some (m ! k))"
proof -
  assume a: "read_matrix st r = Some m"
  then obtain rs where rs: "st r = Some (Rows rs)" and t: "those (map (read_numbers st) rs) = Some m"
    by (auto simp add: read_matrix_def split: option.splits js_array.splits)
  from those_eq_Some [OF t] have e: "map (read_numbers st) rs = map Some m" .
  then have l: "length rs = length m"
    by (metis length_map)
  have "read_numbers st (rs ! k) = Some (m ! k)" if "k < length rs" for k
    using that e l by (metis nth_map)
  with rs l show ?thesis by blast
qed

lemma write_entry_read_matrix:
  assumes m: "read_matrix st r = Some m" and d: "distinct_rows st r"
    and i: "i < length m" and j: "j < length (m ! i)"
  shows "\<exists>st'. write_entry st r i j c = Some st' \<and>
           read_matrix st' r = Some (m[i := (m ! i)[j := c]])"
proof -
  from read_matrix_rows [OF m] obtain rs where rs: "st r = Some (Rows rs)"
    and l: "length rs = length m"
    and rd: "\<And>k. k < length rs \<Longrightarrow> read_numbers st (rs ! k) = Some (m ! k)"
    by blast
  from d rs have dist: "distinct rs"
    by (simp add: distinct_rows_def)
  define st' where "st' = st(rs ! i \<mapsto> Numbers ((m ! i)[j := c]))"
  have ri: "read_numbers st (rs ! i) = Some (m ! i)"
    using rd i l by simp
  have w: "write_entry st r i j c = Some st'"
    using read_numbers_write_same [OF ri j, of c] rs i l
    by (auto simp add: write_entry_def st'_def)
  have ne: "rs ! i \<noteq> r"
    using ri rs by (auto simp add: read_numbers_def)
  then have r': "st' r = Some (Rows rs)"
    using rs by (simp add: st'_def)
  have "map (read_numbers st') rs = map Some (m[i := (m ! i)[j := c]])"
  proof (rule nth_equalityI)
    show "length (map (read_numbers st') rs) = length (map Some (m[i := (m ! i)[j := c]]))"
      using l by simp
  next
    fix k assume "k < length (map (read_numbers st') rs)"
    then have k: "k < length rs" by simp
    show "map (read_numbers st') rs ! k = map Some (m[i := (m ! i)[j := c]]) ! k"
    proof (cases "k = i")
      case True
      then show ?thesis
        using k l by (simp add: st'_def read_numbers_def)
    next
      case False
      then have "rs ! k \<noteq> rs ! i"
        using dist k i l by (simp add: nth_eq_iff_index_eq)
      then have "read_numbers st' (rs ! k) = read_numbers st (rs ! k)"
        by (simp add: st'_def read_numbers_def)
      then show ?thesis
        using False k l rd [OF k] by simp
    qed
  qed
  then have "read_matrix st' r = Some (m[i := (m ! i)[j := c]])"
    using r' by (simp add: read_matrix_def those_map_Some)
  with w show ?thesis by blast
qed

lemma write_number_read_numbers:
  assumes "read_numbers st r = Some v" and "i < length v"
  shows "\<exists>st'. write_number st r i c = Some st' \<and> read_numbers st' r = Some (v[i := c])"
  using read_numbers_write_same [OF assms, of c] by blast

text \<open>
  C8, as the program has it.  \<^const>\<open>getWeights\<close> copies nothing: the four fields of the
  object it returns hold the references the agent holds.  An element written through the
  returned value, \<^verbatim>\<open>weights.b1[i] = c\<close> or \<^verbatim>\<open>weights.w1[i][j] = c\<close>, is therefore
  written to the live parameter of the agent.
\<close>

theorem getWeights_shares_arrays:
  "NeuralNetworkWeights.w1 (getWeights this) = w1_ref this \<and>
   NeuralNetworkWeights.b1 (getWeights this) = b1_ref this \<and>
   NeuralNetworkWeights.w2 (getWeights this) = w2_ref this \<and>
   NeuralNetworkWeights.b2 (getWeights this) = b2_ref this \<and>
   (read_numbers st (b1_ref this) = Some v \<and> i < length v \<longrightarrow>
      (\<exists>st'. write_number st (NeuralNetworkWeights.b1 (getWeights this)) i c = Some st' \<and>
             read_numbers st' (b1_ref this) = Some (v[i := c]))) \<and>
   (read_numbers st (b2_ref this) = Some v \<and> i < length v \<longrightarrow>
      (\<exists>st'. write_number st (NeuralNetworkWeights.b2 (getWeights this)) i c = Some st' \<and>
             read_numbers st' (b2_ref this) = Some (v[i := c]))) \<and>
   (read_matrix st (w1_ref this) = Some m \<and> distinct_rows st (w1_ref this) \<and>
    i < length m \<and> j < length (m ! i) \<longrightarrow>
      (\<exists>st'. write_entry st (NeuralNetworkWeights.w1 (getWeights this)) i j c = Some st' \<and>
             read_matrix st' (w1_ref this) = Some (m[i := (m ! i)[j := c]]))) \<and>
   (read_matrix st (w2_ref this) = Some m \<and> distinct_rows st (w2_ref this) \<and>
    i < length m \<and> j < length (m ! i) \<longrightarrow>
      (\<exists>st'. write_entry st (NeuralNetworkWeights.w2 (getWeights this)) i j c = Some st' \<and>
             read_matrix st' (w2_ref this) = Some (m[i := (m ! i)[j := c]])))"
  using write_number_read_numbers [of st "b1_ref this" v i c]
    write_number_read_numbers [of st "b2_ref this" v i c]
    write_entry_read_matrix [of st "w1_ref this" m i j c]
    write_entry_read_matrix [of st "w2_ref this" m i j c]
  by (simp add: getWeights_def)

lemma example_store_reads:
  "read_matrix example_store 0 = Some [[1], [2], [3], [4]]"
  "read_numbers example_store 5 = Some [0]"
  "read_matrix example_store 6 = Some [[1, - 1]]"
  "read_numbers example_store 8 = Some [0, 0]"
  "distinct_rows example_store 0"
  by (simp_all add: example_store_def read_matrix_def read_numbers_def distinct_rows_def)

text \<open>
  C8 as claimed fails: on the small agent, the assignment \<^verbatim>\<open>weights.b1[0] = 7\<close>
  through the returned value turns the agent's \<^verbatim>\<open>b1\<close> from \<open>[0]\<close> into \<open>[7]\<close>, and
  \<^verbatim>\<open>weights.w1[2][0] = 9\<close> turns the third row of its \<^verbatim>\<open>w1\<close> from \<open>[3]\<close> into
  \<open>[9]\<close>.
\<close>

theorem getWeights_copy_counterexample:
  "live_weights example_store example_refs =
     (Some [[1], [2], [3], [4]], Some [0], Some [[1, - 1]], Some [0, 0]) \<and>
   write_number example_store (NeuralNetworkWeights.b1 (getWeights example_refs)) 0 7 =
     Some (example_store(5 \<mapsto> Numbers [7])) \<and>
   live_weights (example_store(5 \<mapsto> Numbers [7])) example_refs =
     (Some [[1], [2], [3], [4]], Some [7], Some [[1, - 1]], Some [0, 0]) \<and>
   write_entry example_store (NeuralNetworkWeights.w1 (getWeights example_refs)) 2 0 9 =
     Some (example_store(3 \<mapsto> Numbers [9])) \<and>
   live_weights (example_store(3 \<mapsto> Numbers [9])) example_refs =
     (Some [[1], [2], [9], [4]], Some [0], Some [[1, - 1]], Some [0, 0]) \<and>
   live_weights (example_store(5 \<mapsto> Numbers [7])) example_refs \<noteq>
     live_weights example_store example_refs"
  by (simp add: live_weights_def getWeights_def example_refs_def example_store_def
      read_matrix_def read_numbers_def write_number_def write_entry_def)

theorem getWeights_shares_arrays_witness:
  "read_numbers example_store (b1_ref example_refs) = Some [0] \<and>
   read_matrix example_store (w1_ref example_refs) = Some [[1], [2], [3], [4]] \<and>
   distinct_rows example_store (w1_ref example_refs) \<and>
   (\<exists>st'. write_number example_store (NeuralNetworkWeights.b1 (getWeights example_refs)) 0 7 = Some st' \<and>
          read_numbers st' (b1_ref example_refs) = Some [7]) \<and>
   (\<exists>st'. write_entry example_store (NeuralNetworkWeights.w1 (getWeights example_refs)) 2 0 9 = Some st' \<and>
          read_matrix st' (w1_ref example_refs) = Some [[1], [2], [9], [4]])"
proof -
  have r: "b1_ref example_refs = 5" "w1_ref example_refs = 0"
    by (simp_all add: example_refs_def)
  have i: "(0::nat) < length [0::real]" "(2::nat) < length [[1], [2], [3], [4::real]]"
      "(0::nat) < length ([[1], [2], [3], [4::real]] ! 2)"
    by simp_all
  have rb: "read_numbers example_store (b1_ref example_refs) = Some [0]"
    and rw: "read_matrix example_store (w1_ref example_refs) = Some [[1], [2], [3], [4]]"
    and dw: "distinct_rows example_store (w1_ref example_refs)"
    using example_store_reads by (simp_all add: r)
  from getWeights_shares_arrays [where this = example_refs and st = example_store
      and v = "[0]" and i = 0 and c = 7 and m = "[]" and j = 0] rb i(1)
  have "\<exists>st'. write_number example_store (NeuralNetworkWeights.b1 (getWeights example_refs)) 0 7 = Some st' \<and>
          read_numbers st' (b1_ref example_refs) = Some ([0][0 := 7])"
    by blast
  then have a: "\<exists>st'. write_number example_store (NeuralNetworkWeights.b1 (getWeights example_refs)) 0 7 = Some st' \<and>
          read_numbers st' (b1_ref example_refs) = Some [7]"
    by simp
  from getWeights_shares_arrays [where this = example_refs and st = example_store
      and v = "[]" and i = 2 and c = 9 and m = "[[1], [2], [3], [4]]" and j = 0] rw dw i(2,3)
  have "\<exists>st'. write_entry example_store (NeuralNetworkWeights.w1 (getWeights example_refs)) 2 0 9 = Some st' \<and>
          read_matrix st' (w1_ref example_refs) =
            Some ([[1], [2], [3], [4]][2 := ([[1], [2], [3], [4]] ! 2)[0 := 9]])"
    by blast
  then have b: "\<exists>st'. write_entry example_store (NeuralNetworkWeights.w1 (getWeights example_refs)) 2 0 9 = Some st' \<and>
          read_matrix st' (w1_ref example_refs) = Some [[1], [2], [9], [4]]"
    by simp
  show ?thesis
    using a b rb rw dw by blast
qed

end
